theory Spec2Isabelle
  imports Main "HOL-Library.Word"
begin

section \<open>The listener of package wsnet (wsnet/listen.go)\<close>

text \<open>
  The listener talks to a broker websocket, a yamux session, pion peer connections,
  data channels and dialled network targets. Each of these is outside the program: the
  model records what the listener does to them as a list of events, in program order, and
  takes what they answer from an environment record. The listener's own control flow,
  its error texts and its state (the fields of the struct) are translated from the source.
\<close>

subsection \<open>Errors\<close>

text \<open>
  A Go error value: the sentinel errors the source tests with \<open>errors.Is\<close>, the two
  error types it tests for (\<open>*net.OpError\<close> by type assertion,
  \<open>notPermittedByPolicyErr\<close> by \<open>errors.As\<close>), any other error with its text, and
  \<open>fmt.Errorf("prefix: %w", err)\<close>, which wraps an error behind a prefix.
\<close>

datatype go_error =
    ErrEOF
  | ErrKeepAliveTimeout
  | ErrCanceled
  | ErrDeadlineExceeded
  | ErrOther string
  | ErrNotPermitted string
  | ErrOpError string string string
  | ErrWrap string go_error

text \<open>\<open>err.Error()\<close>. An \<open>ErrOpError op net text\<close> carries its fields \<open>Op\<close> and
  \<open>Net\<close> and its whole text.\<close>

fun error_text :: "go_error \<Rightarrow> string" where
  "error_text ErrEOF = ''EOF''"
| "error_text ErrKeepAliveTimeout = ''keepalive timeout''"
| "error_text ErrCanceled = ''context canceled''"
| "error_text ErrDeadlineExceeded = ''context deadline exceeded''"
| "error_text (ErrOther s) = s"
| "error_text (ErrNotPermitted s) = s"
| "error_text (ErrOpError opn nt s) = s"
| "error_text (ErrWrap p e) = p @ error_text e"

text \<open>\<open>errors.Is(err, target)\<close>: the target is met somewhere along the chain of wrapped
  errors.\<close>

fun errors_Is :: "go_error \<Rightarrow> go_error \<Rightarrow> bool" where
  "errors_Is (ErrWrap p e) t = (ErrWrap p e = t \<or> errors_Is e t)"
| "errors_Is e t = (e = t)"

text \<open>\<open>errors.As(err, &policyErr)\<close> with \<open>policyErr\<close> a
  \<open>notPermittedByPolicyErr\<close>.\<close>

fun as_notPermittedByPolicyErr :: "go_error \<Rightarrow> bool" where
  "as_notPermittedByPolicyErr (ErrNotPermitted s) = True"
| "as_notPermittedByPolicyErr (ErrWrap p e) = as_notPermittedByPolicyErr e"
| "as_notPermittedByPolicyErr e = False"

subsection \<open>Data\<close>

text \<open>Codes for DialChannelResponse.\<close>

definition CodeDialErr :: string where
  "CodeDialErr = ''dial_error''"

definition CodePermissionErr :: string where
  "CodePermissionErr = ''permission_error''"

definition CodeBadAddressErr :: string where
  "CodeBadAddressErr = ''bad_address_error''"

text \<open>\<open>var connectionRetryInterval = time.Second\<close>: a \<open>time.Duration\<close> counts
  nanoseconds.\<close>

definition connectionRetryInterval :: nat where
  "connectionRetryInterval = 1000000000"

record DialChannelResponse =
  Code :: string
  Err :: string
  Net :: string
  Op :: string

text \<open>\<open>var init DialChannelResponse\<close>: the zero value.\<close>

definition zero_DialChannelResponse :: DialChannelResponse where
  "zero_DialChannelResponse = \<lparr>Code = '''', Err = '''', Net = '''', Op = ''''\<rparr>"

text \<open>\<open>webrtc.ICEServer\<close>, as far as the listener reads it.\<close>

record ICEServer =
  URLs :: "string list"
  Username :: string
  Credential :: string

text \<open>
  Modelled from the spec: the declaration of \<open>BrokerMessage\<close> is not among the sources.
  The record has the fields that listen.go reads and writes (\<open>Offer\<close>, \<open>Servers\<close>,
  \<open>TURNProxyURL\<close>, \<open>Error\<close>, \<open>Answer\<close>, \<open>Candidate\<close>), which are the fields of the
  signaling message of the spec. A session description is kept as its text; a pointer or
  a slice that may be \<open>nil\<close> is an option.
\<close>

record BrokerMessage =
  Offer :: "string option"
  Servers :: "ICEServer list option"
  TURNProxyURL :: string
  Error :: string
  Answer :: "string option"
  Candidate :: string

definition zero_BrokerMessage :: BrokerMessage where
  "zero_BrokerMessage =
     \<lparr>Offer = None, Servers = None, TURNProxyURL = '''', Error = '''', Answer = None,
      Candidate = ''''\<rparr>"

datatype PeerConnectionState =
    PeerConnectionStateNew
  | PeerConnectionStateConnecting
  | PeerConnectionStateConnected
  | PeerConnectionStateDisconnected
  | PeerConnectionStateFailed
  | PeerConnectionStateClosed

text \<open>
  The struct \<open>listener\<close>. Websocket connections and peer connections are handles
  (numbers); \<open>ws\<close> is \<open>None\<close> while the pointer is \<open>nil\<close>. The mutex
  \<open>connClosersMut\<close> has no field: every function of the model runs its critical section
  in one step.
\<close>

record listener =
  broker :: string
  turnProxyAuthToken :: string
  acceptError :: "go_error option"
  ws :: "nat option"
  connClosers :: "nat list"

subsection \<open>Events\<close>

text \<open>
  What the listener does to the outside, one event per call, in program order. A peer
  connection and a data channel are named by their handle; the signaling stream
  \<open>conn\<close> of a negotiation is the only one that negotiation has.
\<close>

datatype event =
    EvWsClose nat string
  | EvWsDial string
  | EvWsOpen nat
  | EvAcceptLoop nat
  | EvNewTicker nat
  | EvTickerStop
  | EvConnWrite BrokerMessage
  | EvConnClose
  | EvDialICE ICEServer
  | EvNewPeerConnection nat
  | EvOnConnectionStateChange nat
  | EvProxyICECandidates nat
  | EvOnDataChannel nat
  | EvSetRemoteDescription nat string
  | EvCreateAnswer nat
  | EvSetLocalDescription nat string
  | EvFlushCandidates nat
  | EvAddICECandidate nat string
  | EvPeerClose nat
  | EvDetach nat
  | EvChanWrite nat DialChannelResponse
  | EvChanEcho nat "8 word"
  | EvChanClose nat
  | EvRWClose nat
  | EvNetDial string string
  | EvBridge nat
  | EvCoClose nat
  | EvNetClose

text \<open>The events \<open>evs\<close> happened, then those of the run \<open>r\<close>.\<close>

definition after_events :: "event list \<Rightarrow> 'a \<times> event list \<times> 'b \<Rightarrow> 'a \<times> event list \<times> 'b" where
  "after_events evs r = (case r of (l, tr, st) \<Rightarrow> (l, evs @ tr, st))"

definition after_events2 :: "event list \<Rightarrow> event list \<times> 'b \<Rightarrow> event list \<times> 'b" where
  "after_events2 evs r = (case r of (tr, st) \<Rightarrow> (evs @ tr, st))"

subsection \<open>The broker connection: dial, Close and the reconnect loop of Listen\<close>

text \<open>
  What the broker side answers. \<open>wsDial k url\<close> is the result of the \<open>k\<close>-th call of
  \<open>websocket.Dial\<close>: a connection, or an error together with
  \<open>coder.NewHTTPError(resp)\<close> when a response came back. \<open>yamuxServer k\<close> is the error
  of \<open>yamux.Server\<close> on that connection, \<open>wsClose w\<close> the error of closing
  connection \<open>w\<close>.
\<close>

datatype ws_dial_result =
    WsDialOk nat
  | WsDialErr go_error "go_error option"

record broker_env =
  wsDial :: "nat \<Rightarrow> string \<Rightarrow> ws_dial_result"
  yamuxServer :: "nat \<Rightarrow> go_error option"
  wsClose :: "nat \<Rightarrow> go_error option"

text \<open>
  \<open>listener.dial\<close>. The result is the listener, the events, and the error or the
  channel \<open>errCh\<close> of the accept loop it started (named by the number of the call).
\<close>

definition dial ::
  "broker_env \<Rightarrow> nat \<Rightarrow> listener \<Rightarrow> listener \<times> event list \<times> (go_error + nat)" where
  "dial env k l =
     (let closed = (case ws l of
                      None \<Rightarrow> []
                    | Some w \<Rightarrow> [EvWsClose w ''new connection inbound''])
      in case wsDial env k (broker l) of
           WsDialErr err resp \<Rightarrow>
             (l, closed @ [EvWsDial (broker l)],
              Inl (case resp of Some httpErr \<Rightarrow> httpErr | None \<Rightarrow> err))
         | WsDialOk conn \<Rightarrow>
             (let l' = l\<lparr>ws := Some conn\<rparr>
              in case yamuxServer env k of
                   Some err \<Rightarrow>
                     (l', closed @ [EvWsDial (broker l), EvWsOpen conn],
                      Inl (ErrWrap ''create multiplex: '' err))
                 | None \<Rightarrow>
                     (l', closed @ [EvWsDial (broker l), EvWsOpen conn, EvAcceptLoop k],
                      Inr k)))"

text \<open>
  \<open>listener.Close\<close>: every closer of the list is closed, then the result of closing
  the websocket is returned. Calling \<open>Close\<close> on a \<open>nil\<close> websocket dereferences
  it: a panic.
\<close>

datatype close_result = ClosePanic | CloseReturn "go_error option"

definition Close :: "broker_env \<Rightarrow> listener \<Rightarrow> event list \<times> close_result" where
  "Close env l =
     (case ws l of
        None \<Rightarrow> (map EvPeerClose (connClosers l), ClosePanic)
      | Some w \<Rightarrow> (map EvPeerClose (connClosers l) @ [EvWsClose w ''''],
                   CloseReturn (wsClose env w)))"

text \<open>
  The goroutine started by \<open>Listen\<close>. It blocks on the channel of the accept loop and,
  in the retry loop, on a \<open>select\<close> over the ticker and the context; what it receives
  there is its input, one item per receive. The inputs may stop at any point: the
  goroutine is then blocked. An item that the goroutine is not waiting for is passed
  over.
\<close>

datatype ctx_err = CtxCanceled | CtxDeadlineExceeded

fun ctx_Err :: "ctx_err \<Rightarrow> go_error" where
  "ctx_Err CtxCanceled = ErrCanceled"
| "ctx_Err CtxDeadlineExceeded = ErrDeadlineExceeded"

datatype sup_input = AcceptFailed go_error | Tick | CtxDone ctx_err

datatype sup_status = SupBlocked | SupStopped

text \<open>Lines 78 to 82: the error is stored, the listener is closed and the result of
  \<open>Close\<close> is dropped.\<close>

definition give_up ::
  "broker_env \<Rightarrow> listener \<Rightarrow> go_error \<Rightarrow> listener \<times> event list \<times> sup_status" where
  "give_up env l err =
     (let l' = l\<lparr>acceptError := Some err\<rparr>
      in (l', fst (Close env l'), SupStopped))"

fun supervise ::
  "broker_env \<Rightarrow> nat \<Rightarrow> listener \<Rightarrow> sup_input list \<Rightarrow> listener \<times> event list \<times> sup_status"
  and retry ::
  "broker_env \<Rightarrow> nat \<Rightarrow> listener \<Rightarrow> sup_input list \<Rightarrow> listener \<times> event list \<times> sup_status"
  where
  "supervise env k l [] = (l, [], SupBlocked)"
| "supervise env k l (AcceptFailed err # ins) =
     (if errors_Is err ErrEOF \<or> errors_Is err ErrKeepAliveTimeout
      then after_events [EvNewTicker connectionRetryInterval] (retry env k l ins)
      else give_up env l err)"
| "supervise env k l (Tick # ins) = supervise env k l ins"
| "supervise env k l (CtxDone c # ins) = supervise env k l ins"
| "retry env k l [] = (l, [], SupBlocked)"
| "retry env k l (Tick # ins) =
     (case dial env k l of
        (l', tr, Inr ch) \<Rightarrow>
          after_events (tr @ [EvTickerStop]) (supervise env (Suc k) l' ins)
      | (l', tr, Inl err) \<Rightarrow>
          if errors_Is err ErrCanceled \<or> errors_Is err ErrDeadlineExceeded
          then after_events (tr @ [EvTickerStop]) (give_up env l' err)
          else after_events tr (retry env (Suc k) l' ins))"
| "retry env k l (CtxDone c # ins) =
     after_events [EvTickerStop] (give_up env l (ctx_Err c))"
| "retry env k l (AcceptFailed err # ins) = retry env k l ins"

text \<open>
  \<open>Listen\<close> up to the start of the goroutine: the listener is built and dialled once,
  outside of the loop. An error of that dial is returned and no listener is.
\<close>

definition Listen ::
  "broker_env \<Rightarrow> string \<Rightarrow> string \<Rightarrow> event list \<times> (go_error + listener)" where
  "Listen env brokerURL token =
     (let l = \<lparr>broker = brokerURL, turnProxyAuthToken = token, acceptError = None,
               ws = None, connClosers = []\<rparr>
      in case dial env 0 l of
           (l', tr, Inl err) \<Rightarrow> (tr, Inl err)
         | (l', tr, Inr ch) \<Rightarrow> (tr, Inr l'))"

subsection \<open>Negotiation of one signaling stream\<close>

text \<open>
  What the peer side answers while frame number \<open>i\<close> of the stream is handled.
  \<open>turnProxyMagicUsername\<close> is a constant of the package whose declaration is not
  among the sources, and so are the functions \<open>DialICE\<close>, \<open>newPeerConnection\<close> and
  \<open>proxyICECandidates\<close>: the constant and the results of the functions are taken from
  the environment. \<open>newPeerConnection\<close> returns an error or the handle of the new peer;
  \<open>connectionState\<close> is the state of a peer at the moment \<open>closeError\<close> asks for it.
  An answer depends on the frame and on the arguments of the call: while one frame is
  handled, the same call gets the same answer.
\<close>

record neg_env =
  turnProxyMagicUsername :: string
  DialICE :: "nat \<Rightarrow> ICEServer \<Rightarrow> go_error option"
  urlParse :: "nat \<Rightarrow> string \<Rightarrow> go_error option"
  newPeerConnection :: "nat \<Rightarrow> ICEServer list \<Rightarrow> (string \<times> string) option \<Rightarrow> go_error + nat"
  setRemoteDescription :: "nat \<Rightarrow> nat \<Rightarrow> string \<Rightarrow> go_error option"
  createAnswer :: "nat \<Rightarrow> nat \<Rightarrow> go_error + string"
  setLocalDescription :: "nat \<Rightarrow> nat \<Rightarrow> string \<Rightarrow> go_error option"
  localDescription :: "nat \<Rightarrow> nat \<Rightarrow> string option"
  marshalMessage :: "nat \<Rightarrow> BrokerMessage \<Rightarrow> go_error option"
  connWrite :: "nat \<Rightarrow> BrokerMessage \<Rightarrow> go_error option"
  addICECandidate :: "nat \<Rightarrow> nat \<Rightarrow> string \<Rightarrow> go_error option"
  connectionState :: "nat \<Rightarrow> nat \<Rightarrow> PeerConnectionState"

text \<open>
  How a negotiation stands after a frame: still going, with the variables \<open>rtc\<close> and
  \<open>pendingCandidates\<close>, or returned, with the error that was given to \<open>closeError\<close>
  and the value \<open>rtc\<close> had at that call.
\<close>

datatype neg_result =
    Going "nat option" "string list"
  | Returned go_error "nat option"

text \<open>
  The closure \<open>closeError\<close>: the error is sent as a frame, the stream is closed, and
  the peer, if there is one, is closed unless its state is connected. Every call of it is
  followed by \<open>return\<close>.
\<close>

definition closeError :: "neg_env \<Rightarrow> nat \<Rightarrow> nat option \<Rightarrow> go_error \<Rightarrow> event list" where
  "closeError env i rtc err =
     [EvConnWrite (zero_BrokerMessage\<lparr>Error := error_text err\<rparr>), EvConnClose] @
     (case rtc of
        None \<Rightarrow> []
      | Some p \<Rightarrow>
          if connectionState env i p \<noteq> PeerConnectionStateConnected then [EvPeerClose p]
          else [])"

definition fail ::
  "neg_env \<Rightarrow> nat \<Rightarrow> listener \<Rightarrow> nat option \<Rightarrow> go_error \<Rightarrow> listener \<times> event list \<times> neg_result"
  where
  "fail env i l rtc err = (l, closeError env i rtc err, Returned err rtc)"

text \<open>The verb \<open>%+v\<close> on a slice of strings: the elements between brackets, a space
  between two.\<close>

fun join_space :: "string list \<Rightarrow> string" where
  "join_space [] = ''''"
| "join_space [u] = u"
| "join_space (u # v # us) = u @ '' '' @ join_space (v # us)"

definition fmt_urls :: "string list \<Rightarrow> string" where
  "fmt_urls us = ''['' @ join_space us @ '']''"

text \<open>Lines 192 to 203: the loop over \<open>msg.Servers\<close>. It gives the probes made and
  the error of the first probe that failed.\<close>

fun probe_servers :: "neg_env \<Rightarrow> nat \<Rightarrow> ICEServer list \<Rightarrow> event list \<times> go_error option" where
  "probe_servers env i [] = ([], None)"
| "probe_servers env i (server # servers) =
     (if Username server = turnProxyMagicUsername env then probe_servers env i servers
      else case DialICE env i server of
             Some err \<Rightarrow>
               ([EvDialICE server],
                Some (ErrWrap (''dial server '' @ fmt_urls (URLs server) @ '': '') err))
           | None \<Rightarrow> after_events2 [EvDialICE server] (probe_servers env i servers))"

text \<open>Lines 262 to 268: the loop over \<open>pendingCandidates\<close>.\<close>

fun add_pending ::
  "neg_env \<Rightarrow> nat \<Rightarrow> nat \<Rightarrow> string list \<Rightarrow> event list \<times> go_error option" where
  "add_pending env i p [] = ([], None)"
| "add_pending env i p (candidate # candidates) =
     (case addICECandidate env i p candidate of
        Some err \<Rightarrow>
          ([EvAddICECandidate p candidate], Some (ErrWrap ''add pending candidate: '' err))
      | None \<Rightarrow> after_events2 [EvAddICECandidate p candidate] (add_pending env i p candidates))"

text \<open>Lines 232 to 269: the offer is applied to the new peer \<open>p\<close> and answered, and the
  pending candidates are added.\<close>

definition answer_offer ::
  "neg_env \<Rightarrow> nat \<Rightarrow> listener \<Rightarrow> nat \<Rightarrow> string list \<Rightarrow> string \<Rightarrow>
   listener \<times> event list \<times> neg_result" where
  "answer_offer env i l p pendingCandidates offer =
     after_events [EvSetRemoteDescription p offer]
      (case setRemoteDescription env i p offer of
         Some err \<Rightarrow> fail env i l (Some p) (ErrWrap ''apply offer: '' err)
       | None \<Rightarrow>
      after_events [EvCreateAnswer p]
      (case createAnswer env i p of
         Inl err \<Rightarrow> fail env i l (Some p) (ErrWrap ''create answer: '' err)
       | Inr answer \<Rightarrow>
      after_events [EvSetLocalDescription p answer]
      (case setLocalDescription env i p answer of
         Some err \<Rightarrow> fail env i l (Some p) (ErrWrap ''set local answer: '' err)
       | None \<Rightarrow>
      after_events [EvFlushCandidates p]
      (let data = zero_BrokerMessage\<lparr>Answer := localDescription env i p\<rparr>
       in case marshalMessage env i data of
         Some err \<Rightarrow> fail env i l (Some p) (ErrWrap ''marshal: '' err)
       | None \<Rightarrow>
      after_events [EvConnWrite data]
      (case connWrite env i data of
         Some err \<Rightarrow> fail env i l (Some p) (ErrWrap ''write: '' err)
       | None \<Rightarrow>
      (case add_pending env i p pendingCandidates of
         (tr, Some err) \<Rightarrow> after_events tr (fail env i l (Some p) err)
       | (tr, None) \<Rightarrow> (l, tr, Going (Some p) [])))))))"

text \<open>
  Lines 187 to 231: an offer. The servers are checked and probed, the proxy dialer is
  built, the peer is created, its callbacks are registered and it is appended to
  \<open>connClosers\<close>. When \<open>newPeerConnection\<close> fails, the variable \<open>rtc\<close> has been
  assigned its first result, taken to be \<open>nil\<close>, before \<open>closeError\<close> runs.
\<close>

definition handle_offer ::
  "neg_env \<Rightarrow> nat \<Rightarrow> listener \<Rightarrow> nat option \<Rightarrow> string list \<Rightarrow> BrokerMessage \<Rightarrow> string \<Rightarrow>
   listener \<times> event list \<times> neg_result" where
  "handle_offer env i l rtc pendingCandidates msg offer =
     (case Servers msg of
        None \<Rightarrow> fail env i l rtc (ErrOther ''ICEServers must be provided'')
      | Some servers \<Rightarrow>
     (case probe_servers env i servers of
        (probes, Some err) \<Rightarrow> after_events probes (fail env i l rtc err)
      | (probes, None) \<Rightarrow>
     after_events probes
     (case (if TURNProxyURL msg \<noteq> '''' then urlParse env i (TURNProxyURL msg) else None) of
        Some err \<Rightarrow> fail env i l rtc (ErrWrap ''parse turn proxy url: '' err)
      | None \<Rightarrow>
     (let turnProxy = (if TURNProxyURL msg \<noteq> ''''
                       then Some (TURNProxyURL msg, turnProxyAuthToken l) else None)
      in case newPeerConnection env i servers turnProxy of
        Inl err \<Rightarrow> fail env i l None err
      | Inr p \<Rightarrow>
          after_events
            [EvNewPeerConnection p, EvOnConnectionStateChange p, EvProxyICECandidates p,
             EvOnDataChannel p]
            (answer_offer env i (l\<lparr>connClosers := connClosers l @ [p]\<rparr>) p
               pendingCandidates offer)))))"

definition offer_part ::
  "neg_env \<Rightarrow> nat \<Rightarrow> listener \<Rightarrow> nat option \<Rightarrow> string list \<Rightarrow> BrokerMessage \<Rightarrow>
   listener \<times> event list \<times> neg_result" where
  "offer_part env i l rtc pendingCandidates msg =
     (case Offer msg of
        None \<Rightarrow> (l, [], Going rtc pendingCandidates)
      | Some offer \<Rightarrow> handle_offer env i l rtc pendingCandidates msg offer)"

text \<open>Lines 170 to 271: the body of the loop for one decoded frame. A candidate that
  comes while \<open>rtc\<close> is \<open>nil\<close> is appended to the pending ones, and the loop
  continues with the next frame.\<close>

definition handle_frame ::
  "neg_env \<Rightarrow> nat \<Rightarrow> listener \<Rightarrow> nat option \<Rightarrow> string list \<Rightarrow> BrokerMessage \<Rightarrow>
   listener \<times> event list \<times> neg_result" where
  "handle_frame env i l rtc pendingCandidates msg =
     (if Candidate msg \<noteq> '''' then
        (case rtc of
           None \<Rightarrow> (l, [], Going None (pendingCandidates @ [Candidate msg]))
         | Some p \<Rightarrow>
             after_events [EvAddICECandidate p (Candidate msg)]
               (case addICECandidate env i p (Candidate msg) of
                  Some err \<Rightarrow> fail env i l rtc (ErrWrap ''accept ice candidate: '' err)
                | None \<Rightarrow> offer_part env i l rtc pendingCandidates msg))
      else offer_part env i l rtc pendingCandidates msg)"

text \<open>
  The loop of \<open>negotiate\<close> over what the decoder gives: an error or a frame. When the
  stream gives nothing more the negotiation stays blocked in \<open>Decode\<close>, with its
  variables as they are.
\<close>

fun negotiate_loop ::
  "neg_env \<Rightarrow> nat \<Rightarrow> listener \<Rightarrow> nat option \<Rightarrow> string list \<Rightarrow> (go_error + BrokerMessage) list \<Rightarrow>
   listener \<times> event list \<times> neg_result" where
  "negotiate_loop env i l rtc pendingCandidates [] = (l, [], Going rtc pendingCandidates)"
| "negotiate_loop env i l rtc pendingCandidates (Inl err # frames) = fail env i l rtc err"
| "negotiate_loop env i l rtc pendingCandidates (Inr msg # frames) =
     (case handle_frame env i l rtc pendingCandidates msg of
        (l', tr, Returned err r) \<Rightarrow> (l', tr, Returned err r)
      | (l', tr, Going rtc' pendingCandidates') \<Rightarrow>
          after_events tr (negotiate_loop env (Suc i) l' rtc' pendingCandidates' frames))"

definition negotiate ::
  "neg_env \<Rightarrow> listener \<Rightarrow> (go_error + BrokerMessage) list \<Rightarrow>
   listener \<times> event list \<times> neg_result" where
  "negotiate env l frames = negotiate_loop env 0 l None [] frames"

text \<open>The callback given to \<open>OnConnectionStateChange\<close> (lines 221 to 226). It has the
  stream \<open>conn\<close> in its closure and nothing of the listener.\<close>

definition onConnectionStateChange ::
  "listener \<Rightarrow> PeerConnectionState \<Rightarrow> listener \<times> event list" where
  "onConnectionStateChange l pcs =
     (if pcs = PeerConnectionStateConnecting then (l, []) else (l, [EvConnClose]))"

subsection \<open>Data channels\<close>

text \<open>
  What a data channel and the network answer to the callback of \<open>handle\<close>.
  \<open>controlChannel\<close> is a constant and \<open>getAddress\<close> a method of \<open>BrokerMessage\<close>
  whose declarations are not among the sources: both are taken from the environment.
  \<open>getAddress\<close> gives an error or the network and the address; \<open>netDial\<close> gives the
  error of \<open>net.Dial\<close>, if any.
\<close>

record chan_env =
  controlChannel :: string
  detach :: "nat \<Rightarrow> go_error option"
  getAddress :: "BrokerMessage \<Rightarrow> string \<Rightarrow> go_error + (string \<times> string)"
  marshalResponse :: "DialChannelResponse \<Rightarrow> go_error option"
  rwWrite :: "nat \<Rightarrow> DialChannelResponse \<Rightarrow> go_error option"
  netDial :: "string \<Rightarrow> string \<Rightarrow> go_error option"

text \<open>One call of \<open>rw.Read(d)\<close> on the buffer \<open>d\<close> of one byte: the byte it stored
  in the buffer, if it stored one, and its error.\<close>

record chan_read =
  read_data :: "8 word option"
  read_err :: "go_error option"

datatype chan_status = ChanBlocked | ChanReturned

text \<open>Lines 285 to 294: the loop of the control channel, over the results of its
  reads. When the reads stop coming, it stays blocked in \<open>Read\<close>.\<close>

fun echo_loop :: "nat \<Rightarrow> 8 word \<Rightarrow> chan_read list \<Rightarrow> event list \<times> chan_status" where
  "echo_loop dc d [] = ([], ChanBlocked)"
| "echo_loop dc d (r # rs) =
     (let d' = (case read_data r of None \<Rightarrow> d | Some b \<Rightarrow> b)
      in case read_err r of
           Some err \<Rightarrow>
             if errors_Is err ErrEOF then ([], ChanReturned) else echo_loop dc d' rs
         | None \<Rightarrow> after_events2 [EvChanEcho dc d'] (echo_loop dc d' rs))"

text \<open>The closure \<open>sendInitMessage\<close> (lines 306 to 321).\<close>

definition sendInitMessage :: "chan_env \<Rightarrow> nat \<Rightarrow> DialChannelResponse \<Rightarrow> event list" where
  "sendInitMessage env dc init =
     (case marshalResponse env init of
        Some err \<Rightarrow> [EvRWClose dc]
      | None \<Rightarrow>
          (case rwWrite env dc init of
             Some err \<Rightarrow> [EvChanWrite dc init]
           | None \<Rightarrow> EvChanWrite dc init # (if Err init \<noteq> '''' then [EvChanClose dc] else [])))"

text \<open>Lines 335 to 343: the response after \<open>net.Dial\<close> returned \<open>err\<close>.\<close>

definition dial_response :: "go_error option \<Rightarrow> DialChannelResponse" where
  "dial_response r =
     (case r of
        None \<Rightarrow> zero_DialChannelResponse
      | Some err \<Rightarrow>
          (let init = zero_DialChannelResponse\<lparr>Code := CodeDialErr, Err := error_text err\<rparr>
           in case err of
                ErrOpError opn nt s \<Rightarrow> init\<lparr>Net := nt, Op := opn\<rparr>
              | _ \<Rightarrow> init))"

text \<open>Lines 323 to 333: the response after \<open>getAddress\<close> returned \<open>err\<close>.\<close>

definition address_response :: "go_error \<Rightarrow> DialChannelResponse" where
  "address_response err =
     (let init = zero_DialChannelResponse\<lparr>Code := CodeBadAddressErr, Err := error_text err\<rparr>
      in if as_notPermittedByPolicyErr err then init\<lparr>Code := CodePermissionErr\<rparr> else init)"

text \<open>
  The callback that \<open>handle\<close> returns, together with the function it gives to
  \<open>OnOpen\<close>, for the data channel \<open>dc\<close> with the given protocol label, once the
  channel is open. \<open>EvBridge\<close> stands for the two copies between the channel and the
  dialled connection; the deferred calls follow it.
\<close>

definition handle ::
  "chan_env \<Rightarrow> BrokerMessage \<Rightarrow> nat \<Rightarrow> string \<Rightarrow> chan_read list \<Rightarrow> event list \<times> chan_status"
  where
  "handle env msg dc protocol reads =
     (if protocol = controlChannel env then
        (case detach env dc of
           Some err \<Rightarrow> ([EvDetach dc], ChanReturned)
         | None \<Rightarrow> after_events2 [EvDetach dc] (echo_loop dc 0 reads))
      else
        (case detach env dc of
           Some err \<Rightarrow> ([EvDetach dc], ChanReturned)
         | None \<Rightarrow>
             (case getAddress env msg protocol of
                Inl err \<Rightarrow>
                  (EvDetach dc # sendInitMessage env dc (address_response err), ChanReturned)
              | Inr (network, addr) \<Rightarrow>
                  (let init = dial_response (netDial env network addr);
                       sent = [EvDetach dc, EvNetDial network addr] @ sendInitMessage env dc init
                   in if Err init \<noteq> '''' then (sent, ChanReturned)
                      else (sent @ [EvBridge dc, EvCoClose dc, EvNetClose], ChanReturned)))))"

subsection \<open>Notions used to state the properties\<close>

text \<open>
  The broker websockets that are open after a run of events: a successful dial opens
  one, closing a connection closes it.
\<close>

fun live_step :: "nat set \<Rightarrow> event \<Rightarrow> nat set" where
  "live_step live (EvWsOpen c) = insert c live"
| "live_step live (EvWsClose w reason) = live - {w}"
| "live_step live e = live"

fun live_after :: "nat set \<Rightarrow> event list \<Rightarrow> nat set" where
  "live_after live [] = live"
| "live_after live (e # tr) = live_after (live_step live e) tr"

definition at_most_one :: "nat set \<Rightarrow> bool" where
  "at_most_one S = (\<forall>x\<in>S. \<forall>y\<in>S. x = y)"

text \<open>At most one websocket is open before the run, between any two of its events and
  after it.\<close>

fun one_live_throughout :: "nat set \<Rightarrow> event list \<Rightarrow> bool" where
  "one_live_throughout live [] = at_most_one live"
| "one_live_throughout live (e # tr) =
     (at_most_one live \<and> one_live_throughout (live_step live e) tr)"

text \<open>
  \<open>n\<close> calls of \<open>dial\<close> in a row, from call number \<open>k\<close> on, each of which
  fails with an error that is not the end of the context: the listener and the events
  after them, or \<open>None\<close> when one of the calls ends otherwise.
\<close>

fun dial_failures ::
  "broker_env \<Rightarrow> nat \<Rightarrow> listener \<Rightarrow> nat \<Rightarrow> (listener \<times> event list) option" where
  "dial_failures env k l 0 = Some (l, [])"
| "dial_failures env k l (Suc n) =
     (case dial env k l of
        (l', tr, Inr ch) \<Rightarrow> None
      | (l', tr, Inl err) \<Rightarrow>
          if errors_Is err ErrCanceled \<or> errors_Is err ErrDeadlineExceeded then None
          else (case dial_failures env (Suc k) l' n of
                  None \<Rightarrow> None
                | Some (l'', tr') \<Rightarrow> Some (l'', tr @ tr')))"

fun is_ws_dial :: "event \<Rightarrow> bool" where
  "is_ws_dial (EvWsDial url) = True"
| "is_ws_dial e = False"

text \<open>The events that close the signaling stream or a peer.\<close>

fun is_teardown :: "event \<Rightarrow> bool" where
  "is_teardown EvConnClose = True"
| "is_teardown (EvPeerClose p) = True"
| "is_teardown e = False"

text \<open>
  The shape of a run of the negotiation at frame \<open>i\<close>: while it goes on nothing is
  closed, and when it returns its events end with those of \<open>closeError\<close>, nothing
  having been closed before.
\<close>

definition error_protocol ::
  "neg_env \<Rightarrow> nat \<Rightarrow> listener \<times> event list \<times> neg_result \<Rightarrow> bool" where
  "error_protocol env i r =
     (case r of
        (l, tr, Going rtc pending) \<Rightarrow> \<forall>e\<in>set tr. \<not> is_teardown e
      | (l, tr, Returned err rtc) \<Rightarrow>
          \<exists>pre. tr = pre @ closeError env i rtc err \<and> (\<forall>e\<in>set pre. \<not> is_teardown e))"

text \<open>The last events of \<open>closeError\<close>: the peer that the negotiation holds is closed
  unless its state is connected; with no peer, nothing is.\<close>

definition close_unless_connected :: "neg_env \<Rightarrow> nat \<Rightarrow> nat option \<Rightarrow> event list" where
  "close_unless_connected env i rtc =
     (case rtc of
        None \<Rightarrow> []
      | Some p \<Rightarrow>
          if connectionState env i p \<noteq> PeerConnectionStateConnected then [EvPeerClose p]
          else [])"

text \<open>The events on the data channel \<open>dc\<close>.\<close>

fun on_channel :: "nat \<Rightarrow> event \<Rightarrow> bool" where
  "on_channel dc (EvDetach c) = (c = dc)"
| "on_channel dc (EvChanWrite c r) = (c = dc)"
| "on_channel dc (EvChanEcho c b) = (c = dc)"
| "on_channel dc (EvChanClose c) = (c = dc)"
| "on_channel dc (EvRWClose c) = (c = dc)"
| "on_channel dc e = False"

subsection \<open>Sample environments and inputs\<close>

text \<open>A broker that accepts the first dial, refuses the next two and accepts again from
  the fourth on.\<close>

definition refusing_broker :: broker_env where
  "refusing_broker =
     \<lparr>wsDial = (\<lambda>k url. if k = 0 \<or> 3 \<le> k then WsDialOk k
                        else WsDialErr (ErrOther ''connection refused'') None),
      yamuxServer = (\<lambda>k. None),
      wsClose = (\<lambda>w. None)\<rparr>"

text \<open>A broker that accepts the first dial; every later dial runs out of time, and its
  error wraps \<open>context.DeadlineExceeded\<close>.\<close>

definition timing_out_broker :: broker_env where
  "timing_out_broker =
     \<lparr>wsDial = (\<lambda>k url. if k = 0 then WsDialOk 0
                        else WsDialErr (ErrWrap ''failed to WebSocket dial: '' ErrDeadlineExceeded)
                               None),
      yamuxServer = (\<lambda>k. None),
      wsClose = (\<lambda>w. None)\<rparr>"

text \<open>The listener that \<open>Listen\<close> returns with that broker.\<close>

definition listening :: listener where
  "listening =
     \<lparr>broker = ''ws://broker/listen'', turnProxyAuthToken = ''token'', acceptError = None,
      ws = Some 0, connClosers = []\<rparr>"

text \<open>Peers for which every call succeeds, but for the probe of one server; a peer stays
  in the state connecting.\<close>

definition peers_ok :: neg_env where
  "peers_ok =
     \<lparr>turnProxyMagicUsername = ''~magicalusername~'',
      DialICE = (\<lambda>i server. if ''stun:down.example.org'' \<in> set (URLs server)
                            then Some (ErrOther ''i/o timeout'') else None),
      urlParse = (\<lambda>i u. None),
      newPeerConnection = (\<lambda>i servers turnProxy. Inr (7 + i)),
      setRemoteDescription = (\<lambda>i p offer. None),
      createAnswer = (\<lambda>i p. Inr ''answer''),
      setLocalDescription = (\<lambda>i p answer. None),
      localDescription = (\<lambda>i p. Some ''answer''),
      marshalMessage = (\<lambda>i m. None),
      connWrite = (\<lambda>i m. None),
      addICECandidate = (\<lambda>i p c. None),
      connectionState = (\<lambda>i p. PeerConnectionStateConnecting)\<rparr>"

text \<open>The same peers, but the offer of the second frame cannot be applied.\<close>

definition second_offer_fails :: neg_env where
  "second_offer_fails =
     peers_ok\<lparr>setRemoteDescription :=
       (\<lambda>i p offer. if i = 1 then Some (ErrOther ''invalid offer'') else None)\<rparr>"

definition stun_server :: ICEServer where
  "stun_server = \<lparr>URLs = [''stun:stun.example.org''], Username = '''', Credential = ''''\<rparr>"

definition sentinel_server :: ICEServer where
  "sentinel_server =
     \<lparr>URLs = [''turn:127.0.0.1:3478''], Username = ''~magicalusername~'', Credential = ''x''\<rparr>"

definition down_server :: ICEServer where
  "down_server =
     \<lparr>URLs = [''stun:down.example.org'', ''stun:also.example.org''], Username = '''',
      Credential = ''''\<rparr>"

definition offer_frame :: BrokerMessage where
  "offer_frame = zero_BrokerMessage\<lparr>Offer := Some ''offer'', Servers := Some [stun_server]\<rparr>"

definition candidate_frame :: "string \<Rightarrow> BrokerMessage" where
  "candidate_frame c = zero_BrokerMessage\<lparr>Candidate := c\<rparr>"

definition refused :: go_error where
  "refused = ErrOpError ''dial'' ''tcp'' ''dial tcp 127.0.0.1:9: connect: connection refused''"

definition not_permitted :: go_error where
  "not_permitted = ErrNotPermitted ''tcp:10.0.0.1:22 is not permitted by policy''"

text \<open>Data channels on which every call succeeds; one label does not parse, one address
  is denied and one target refuses the connection.\<close>

definition chan_ok :: chan_env where
  "chan_ok =
     \<lparr>controlChannel = ''control'',
      detach = (\<lambda>dc. None),
      getAddress = (\<lambda>msg protocol.
         if protocol = ''tcp:localhost'' then Inl (ErrOther ''missing port'')
         else if protocol = ''tcp:10.0.0.1:22'' then Inl not_permitted
         else Inr (''tcp'', drop 4 protocol)),
      marshalResponse = (\<lambda>r. None),
      rwWrite = (\<lambda>dc r. None),
      netDial = (\<lambda>network addr. if addr = ''127.0.0.1:9'' then Some refused else None)\<rparr>"

section \<open>Properties\<close>

subsection \<open>Runs and their events\<close>

lemma after_events_simp [simp]: "after_events evs (l, tr, st) = (l, evs @ tr, st)"
  by (simp add: after_events_def)

lemma after_events2_simp [simp]: "after_events2 evs (tr, st) = (evs @ tr, st)"
  by (simp add: after_events2_def)

lemma after_events_after [simp]:
  "after_events evs (after_events evs' r) = after_events (evs @ evs') r"
  by (cases r) simp

lemma after_events_Nil [simp]: "after_events [] r = r"
  by (cases r) simp

lemma fst_after_events [simp]: "fst (after_events evs r) = fst r"
  by (cases r) simp

lemma live_after_append: "live_after live (tr @ tr') = live_after (live_after live tr) tr'"
  by (induction tr arbitrary: live) auto

lemma one_live_now: "one_live_throughout live tr \<Longrightarrow> at_most_one live"
  by (cases tr) auto

lemma one_live_append:
  "one_live_throughout live (tr @ tr') =
     (one_live_throughout live tr \<and> one_live_throughout (live_after live tr) tr')"
  by (induction tr arbitrary: live) (auto dest: one_live_now)

lemma subset_option_one: "live \<subseteq> set_option x \<Longrightarrow> at_most_one live"
  by (cases x) (auto simp: at_most_one_def)

lemma live_after_peer_closes [simp]: "live_after live (map EvPeerClose ps) = live"
  by (induction ps) auto

lemma one_live_peer_closes [simp]:
  "one_live_throughout live (map EvPeerClose ps) = at_most_one live"
  by (induction ps) auto

subsection \<open>The broker websocket\<close>

lemma dial_live:
  assumes "live \<subseteq> set_option (ws l)" and "dial env k l = (l', tr, r)"
  shows "one_live_throughout live tr \<and> live_after live tr \<subseteq> set_option (ws l')"
  using assms
  by (cases "ws l";
      auto simp: dial_def Let_def at_most_one_def split: ws_dial_result.splits option.splits;
      blast)

lemma dial_dials_with_none_live:
  assumes "live \<subseteq> set_option (ws l)" and "dial env k l = (l', tr, r)"
      and "tr = pre @ EvWsDial u # post"
  shows "live_after live pre = {}"
  using assms
  by (cases "ws l";
      auto simp: dial_def Let_def Cons_eq_append_conv append_eq_Cons_conv
           split: ws_dial_result.splits option.splits)

lemma Close_live:
  assumes "live \<subseteq> set_option (ws l)"
  shows "one_live_throughout live (fst (Close env l)) \<and>
         live_after live (fst (Close env l)) \<subseteq> set_option (ws l)"
  using assms subset_option_one[OF assms]
  by (cases "ws l") (auto simp: Close_def one_live_append live_after_append at_most_one_def)

lemma give_up_live:
  assumes "live \<subseteq> set_option (ws l)" and "give_up env l err = (l', tr, st)"
  shows "one_live_throughout live tr \<and> live_after live tr \<subseteq> set_option (ws l')"
proof -
  let ?l = "l\<lparr>acceptError := Some err\<rparr>"
  have "live \<subseteq> set_option (ws ?l)" using assms(1) by simp
  from Close_live[OF this, of env] assms(2) show ?thesis
    by (auto simp: give_up_def Let_def)
qed

text \<open>The reconnect loop keeps the invariant of \<open>dial\<close>, whatever it receives.\<close>

lemma supervise_retry_live:
  "live \<subseteq> set_option (ws l) \<Longrightarrow> supervise env k l ins = (l', tr, st) \<Longrightarrow>
     one_live_throughout live tr \<and> live_after live tr \<subseteq> set_option (ws l')"
  "live \<subseteq> set_option (ws l) \<Longrightarrow> retry env k l ins = (l', tr, st) \<Longrightarrow>
     one_live_throughout live tr \<and> live_after live tr \<subseteq> set_option (ws l')"
proof (induction env k l ins and env k l ins arbitrary: live l' tr st and live l' tr st
       rule: supervise_retry.induct)
  case (1 env k l)
  then show ?case by (auto dest: subset_option_one)
next
  case (2 env k l err ins)
  show ?case
  proof (cases "errors_Is err ErrEOF \<or> errors_Is err ErrKeepAliveTimeout")
    case True
    obtain l2 tr2 st2 where r: "retry env k l ins = (l2, tr2, st2)"
      by (cases "retry env k l ins") auto
    from "2.IH"[OF True "2.prems"(1) r] "2.prems" True r show ?thesis
      by (auto dest: subset_option_one)
  next
    case False
    with "2.prems" give_up_live[of live l env err l' tr st] show ?thesis by auto
  qed
next
  case (3 env k l ins)
  then show ?case by auto
next
  case (4 env k l c ins)
  then show ?case by auto
next
  case (5 env k l)
  then show ?case by (auto dest: subset_option_one)
next
  case (6 env k l ins)
  obtain l1 tr1 r1 where d: "dial env k l = (l1, tr1, r1)" by (cases "dial env k l") auto
  from dial_live[OF "6.prems"(1) d]
  have o1: "one_live_throughout live tr1" and s1: "live_after live tr1 \<subseteq> set_option (ws l1)"
    by auto
  show ?case
  proof (cases r1)
    case (Inr ch)
    obtain l2 tr2 st2 where r: "supervise env (Suc k) l1 ins = (l2, tr2, st2)"
      by (cases "supervise env (Suc k) l1 ins") auto
    have "one_live_throughout (live_after live tr1) tr2 \<and>
          live_after (live_after live tr1) tr2 \<subseteq> set_option (ws l2)"
      using "6.IH"(2)[OF d[symmetric] refl Inr s1 r] .
    with "6.prems"(2) d Inr r o1 s1 show ?thesis
      by (auto simp: one_live_append live_after_append dest: subset_option_one)
  next
    case (Inl e)
    show ?thesis
    proof (cases "errors_Is e ErrCanceled \<or> errors_Is e ErrDeadlineExceeded")
      case True
      obtain l2 tr2 st2 where g: "give_up env l1 e = (l2, tr2, st2)"
        by (cases "give_up env l1 e") auto
      from give_up_live[OF s1 g] "6.prems"(2) d Inl True g o1 s1 show ?thesis
        by (auto simp: one_live_append live_after_append dest: subset_option_one)
    next
      case False
      obtain l2 tr2 st2 where r: "retry env (Suc k) l1 ins = (l2, tr2, st2)"
        by (cases "retry env (Suc k) l1 ins") auto
      have "one_live_throughout (live_after live tr1) tr2 \<and>
            live_after (live_after live tr1) tr2 \<subseteq> set_option (ws l2)"
        using "6.IH"(1)[OF d[symmetric] refl Inl False s1 r] .
      with "6.prems"(2) d Inl False r o1 s1 show ?thesis
        by (auto simp: one_live_append live_after_append)
    qed
  qed
next
  case (7 env k l c ins)
  obtain l2 tr2 st2 where g: "give_up env l (ctx_Err c) = (l2, tr2, st2)"
    by (cases "give_up env l (ctx_Err c)") auto
  from give_up_live[OF "7.prems"(1) g] "7.prems" g show ?case
    by (auto dest: subset_option_one)
next
  case (8 env k l err ins)
  then show ?case by auto
qed

text \<open>From \<open>Listen\<close> on, through any run of the reconnect loop, at most one broker
  websocket is open at any moment, and the one open at the end is the stored one.\<close>

lemma Listen_supervise_one_live:
  assumes "Listen env brokerURL token = (tr0, Inr l0)"
      and "supervise env 1 l0 ins = (l1, tr1, st)"
  shows "one_live_throughout {} (tr0 @ tr1) \<and> live_after {} (tr0 @ tr1) \<subseteq> set_option (ws l1)"
proof -
  let ?l = "\<lparr>broker = brokerURL, turnProxyAuthToken = token, acceptError = None,
             ws = None, connClosers = []\<rparr>"
  obtain l' tr r where d: "dial env 0 ?l = (l', tr, r)" by (cases "dial env 0 ?l") auto
  with assms(1) have eq: "tr = tr0" "l' = l0"
    by (auto simp: Listen_def Let_def split: sum.splits)
  have "{} \<subseteq> set_option (ws ?l)" by simp
  from dial_live[OF this d] eq
  have a: "one_live_throughout {} tr0" "live_after {} tr0 \<subseteq> set_option (ws l0)" by auto
  from supervise_retry_live(1)[OF a(2) assms(2)] a show ?thesis
    by (simp add: one_live_append live_after_append)
qed

text \<open>
  C10. The listener holds at most one live broker websocket: if the websockets open
  before a call of \<open>dial\<close> are at most the stored one, then at most one is open at every
  moment of the call, the stored one has been closed and none is open when the new
  connection is dialled, and after the call the websockets open are at most the one now
  stored. This holds for every call, the first one of \<open>Listen\<close> (nothing stored, nothing
  open) and every one of the reconnect loop.
\<close>

theorem dial_one_live_websocket:
  assumes "live \<subseteq> set_option (ws l)" and "dial env k l = (l', tr, r)"
  shows "one_live_throughout live tr \<and> live_after live tr \<subseteq> set_option (ws l') \<and>
         (\<forall>pre u post. tr = pre @ EvWsDial u # post \<longrightarrow> live_after live pre = {})"
  using dial_live[OF assms] dial_dials_with_none_live[OF assms] by blast

theorem dial_one_live_websocket_witness:
  "{0} \<subseteq> set_option (ws listening) \<and>
   dial refusing_broker 3 listening =
     (listening\<lparr>ws := Some 3\<rparr>,
      [EvWsClose 0 ''new connection inbound'', EvWsDial ''ws://broker/listen'', EvWsOpen 3,
       EvAcceptLoop 3], Inr 3) \<and>
   one_live_throughout {0}
     [EvWsClose 0 ''new connection inbound'', EvWsDial ''ws://broker/listen'', EvWsOpen 3,
      EvAcceptLoop 3] \<and>
   live_after {0}
     [EvWsClose 0 ''new connection inbound'', EvWsDial ''ws://broker/listen'', EvWsOpen 3,
      EvAcceptLoop 3] \<subseteq> {3}"
proof -
  have h: "{0} \<subseteq> set_option (ws listening)" by (simp add: listening_def)
  have d: "dial refusing_broker 3 listening =
     (listening\<lparr>ws := Some 3\<rparr>,
      [EvWsClose 0 ''new connection inbound'', EvWsDial ''ws://broker/listen'', EvWsOpen 3,
       EvAcceptLoop 3], Inr 3)"
    by (simp add: dial_def refusing_broker_def listening_def)
  from dial_one_live_websocket[OF h d] h d show ?thesis by simp
qed

subsection \<open>The reconnect loop\<close>

lemma dial_dials_once: "dial env k l = (l', tr, r) \<Longrightarrow> length (filter is_ws_dial tr) = 1"
  by (auto simp: dial_def Let_def split: ws_dial_result.splits option.splits)

lemma dial_failures_dials:
  "dial_failures env k l n = Some (ln, trn) \<Longrightarrow> length (filter is_ws_dial trn) = n"
proof (induction n arbitrary: k l trn)
  case 0
  then show ?case by simp
next
  case (Suc n)
  obtain l1 tr1 r1 where d: "dial env k l = (l1, tr1, r1)" by (cases "dial env k l") auto
  with Suc.prems obtain tr' where
    "dial_failures env (Suc k) l1 n = Some (ln, tr')" "trn = tr1 @ tr'"
    by (auto split: sum.splits if_splits option.splits)
  with Suc.IH[of "Suc k" l1 tr'] dial_dials_once[OF d] show ?case by simp
qed

text \<open>While the dials fail, each tick is one call of \<open>dial\<close>, and the loop goes on.\<close>

lemma retry_dial_failures:
  "dial_failures env k l n = Some (ln, trn) \<Longrightarrow>
     retry env k l (replicate n Tick @ ins) = after_events trn (retry env (k + n) ln ins)"
proof (induction n arbitrary: k l trn)
  case 0
  then show ?case by simp
next
  case (Suc n)
  obtain l1 tr1 r1 where d: "dial env k l = (l1, tr1, r1)" by (cases "dial env k l") auto
  with Suc.prems obtain err tr' where
    r1: "r1 = Inl err" "\<not> (errors_Is err ErrCanceled \<or> errors_Is err ErrDeadlineExceeded)" and
    rest: "dial_failures env (Suc k) l1 n = Some (ln, tr')" "trn = tr1 @ tr'"
    by (auto split: sum.splits if_splits option.splits)
  from Suc.IH[OF rest(1)] d r1 rest(2) show ?case by simp
qed

text \<open>
  C8, as the claim states it, fails: the broker is lost, the first redial runs out of time
  with an error that wraps \<open>context.DeadlineExceeded\<close>, and the goroutine stops
  there, storing the error and closing the listener. The context has not ended, no dial
  has succeeded, and two more ticks come that are not answered by a dial.
\<close>

theorem redial_stops_on_deadline_error_counterexample:
  "supervise timing_out_broker 1 listening [AcceptFailed ErrEOF, Tick, Tick, Tick] =
     (listening\<lparr>acceptError :=
        Some (ErrWrap ''failed to WebSocket dial: '' ErrDeadlineExceeded)\<rparr>,
      [EvNewTicker 1000000000,
       EvWsClose 0 ''new connection inbound'', EvWsDial ''ws://broker/listen'',
       EvTickerStop, EvWsClose 0 ''''],
      SupStopped)"
  by (simp add: timing_out_broker_def listening_def dial_def give_up_def Close_def
        connectionRetryInterval_def)

text \<open>
  C8, amended. When the accept loop fails with \<open>io.EOF\<close> or the keepalive timeout of
  yamux, the goroutine of \<open>Listen\<close> starts a ticker of \<open>connectionRetryInterval\<close>,
  which is one second (\<open>10\<^sup>9\<close> nanoseconds), and calls \<open>dial\<close> once at each
  tick, for as long as the dials fail with errors that match neither
  \<open>context.Canceled\<close> nor \<open>context.DeadlineExceeded\<close>: after \<open>n\<close> such ticks it
  has dialled \<open>n\<close> times and waits for the next tick. A tick at which the dial succeeds
  stops the ticker and brings the goroutine back to waiting on the new accept loop. A tick
  at which the dial fails with an error that matches one of the two, and the end of the
  context, stop the ticker, store the error and close the listener. That a ticker of that
  interval ticks once a second is the Go runtime's part and is not modelled.
\<close>

theorem supervisor_redials_every_tick:
  assumes "errors_Is err ErrEOF \<or> errors_Is err ErrKeepAliveTimeout"
      and "dial_failures env k l n = Some (ln, trn)"
  shows "connectionRetryInterval = 1000 * 1000 * 1000 \<and>
         length (filter is_ws_dial trn) = n \<and>
         (dial env (k + n) ln = (l', tr', Inr ch) \<longrightarrow>
            supervise env k l (AcceptFailed err # replicate n Tick @ Tick # ins) =
              after_events (EvNewTicker connectionRetryInterval # trn @ tr' @ [EvTickerStop])
                (supervise env (Suc (k + n)) l' ins)) \<and>
         (dial env (k + n) ln = (l', tr', Inl derr) \<and>
          (errors_Is derr ErrCanceled \<or> errors_Is derr ErrDeadlineExceeded) \<longrightarrow>
            supervise env k l (AcceptFailed err # replicate n Tick @ Tick # ins) =
              after_events (EvNewTicker connectionRetryInterval # trn @ tr' @ [EvTickerStop])
                (give_up env l' derr)) \<and>
         supervise env k l (AcceptFailed err # replicate n Tick @ CtxDone cx # ins) =
           after_events (EvNewTicker connectionRetryInterval # trn @ [EvTickerStop])
             (give_up env ln (ctx_Err cx)) \<and>
         supervise env k l (AcceptFailed err # replicate n Tick) =
           (ln, EvNewTicker connectionRetryInterval # trn, SupBlocked)"
proof (intro conjI impI)
  show "connectionRetryInterval = 1000 * 1000 * 1000"
    by (simp add: connectionRetryInterval_def)
next
  show "length (filter is_ws_dial trn) = n" using assms(2) by (rule dial_failures_dials)
next
  assume "dial env (k + n) ln = (l', tr', Inr ch)"
  with assms(1) retry_dial_failures[OF assms(2), of "Tick # ins"]
  show "supervise env k l (AcceptFailed err # replicate n Tick @ Tick # ins) =
              after_events (EvNewTicker connectionRetryInterval # trn @ tr' @ [EvTickerStop])
                (supervise env (Suc (k + n)) l' ins)"
    by simp
next
  assume "dial env (k + n) ln = (l', tr', Inl derr) \<and>
          (errors_Is derr ErrCanceled \<or> errors_Is derr ErrDeadlineExceeded)"
  with assms(1) retry_dial_failures[OF assms(2), of "Tick # ins"]
  show "supervise env k l (AcceptFailed err # replicate n Tick @ Tick # ins) =
              after_events (EvNewTicker connectionRetryInterval # trn @ tr' @ [EvTickerStop])
                (give_up env l' derr)"
    by auto
next
  from assms(1) retry_dial_failures[OF assms(2), of "CtxDone cx # ins"]
  show "supervise env k l (AcceptFailed err # replicate n Tick @ CtxDone cx # ins) =
           after_events (EvNewTicker connectionRetryInterval # trn @ [EvTickerStop])
             (give_up env ln (ctx_Err cx))"
    by simp
next
  from assms(1) retry_dial_failures[OF assms(2), of "[]"]
  show "supervise env k l (AcceptFailed err # replicate n Tick) =
           (ln, EvNewTicker connectionRetryInterval # trn, SupBlocked)"
    by simp
qed

theorem supervisor_redials_every_tick_witness:
  "errors_Is ErrEOF ErrEOF \<and>
   supervise refusing_broker 1 listening [AcceptFailed ErrEOF, Tick, Tick, Tick] =
     (listening\<lparr>ws := Some 3\<rparr>,
      [EvNewTicker 1000000000,
       EvWsClose 0 ''new connection inbound'', EvWsDial ''ws://broker/listen'',
       EvWsClose 0 ''new connection inbound'', EvWsDial ''ws://broker/listen'',
       EvWsClose 0 ''new connection inbound'', EvWsDial ''ws://broker/listen'',
       EvWsOpen 3, EvAcceptLoop 3, EvTickerStop],
      SupBlocked) \<and>
   supervise refusing_broker 1 listening [AcceptFailed ErrEOF, Tick, Tick, CtxDone CtxCanceled] =
     (listening\<lparr>acceptError := Some ErrCanceled\<rparr>,
      [EvNewTicker 1000000000,
       EvWsClose 0 ''new connection inbound'', EvWsDial ''ws://broker/listen'',
       EvWsClose 0 ''new connection inbound'', EvWsDial ''ws://broker/listen'',
       EvTickerStop, EvWsClose 0 ''''],
      SupStopped) \<and>
   supervise timing_out_broker 1 listening [AcceptFailed ErrKeepAliveTimeout, Tick] =
     (listening\<lparr>acceptError :=
        Some (ErrWrap ''failed to WebSocket dial: '' ErrDeadlineExceeded)\<rparr>,
      [EvNewTicker 1000000000,
       EvWsClose 0 ''new connection inbound'', EvWsDial ''ws://broker/listen'',
       EvTickerStop, EvWsClose 0 ''''],
      SupStopped)"
proof -
  have r: "errors_Is ErrEOF ErrEOF \<or> errors_Is ErrEOF ErrKeepAliveTimeout" by simp
  have f: "dial_failures refusing_broker 1 listening 2 =
             Some (listening,
               [EvWsClose 0 ''new connection inbound'', EvWsDial ''ws://broker/listen'',
                EvWsClose 0 ''new connection inbound'', EvWsDial ''ws://broker/listen''])"
    by (simp add: numeral_2_eq_2 dial_def refusing_broker_def listening_def)
  have d: "dial refusing_broker (1 + 2) listening =
             (listening\<lparr>ws := Some 3\<rparr>,
              [EvWsClose 0 ''new connection inbound'', EvWsDial ''ws://broker/listen'',
               EvWsOpen 3, EvAcceptLoop 3], Inr 3)"
    by (simp add: dial_def refusing_broker_def listening_def)
  have rep: "replicate 2 Tick = [Tick, Tick]" by (simp add: numeral_2_eq_2)
  from supervisor_redials_every_tick[OF r f, where ins = "[]" and cx = CtxCanceled
         and l' = "listening\<lparr>ws := Some 3\<rparr>" and ch = 3
         and tr' = "[EvWsClose 0 ''new connection inbound'', EvWsDial ''ws://broker/listen'',
               EvWsOpen 3, EvAcceptLoop 3]"] d
  have refusing:
   "supervise refusing_broker 1 listening [AcceptFailed ErrEOF, Tick, Tick, Tick] =
     (listening\<lparr>ws := Some 3\<rparr>,
      [EvNewTicker 1000000000,
       EvWsClose 0 ''new connection inbound'', EvWsDial ''ws://broker/listen'',
       EvWsClose 0 ''new connection inbound'', EvWsDial ''ws://broker/listen'',
       EvWsClose 0 ''new connection inbound'', EvWsDial ''ws://broker/listen'',
       EvWsOpen 3, EvAcceptLoop 3, EvTickerStop],
      SupBlocked) \<and>
   supervise refusing_broker 1 listening [AcceptFailed ErrEOF, Tick, Tick, CtxDone CtxCanceled] =
     (listening\<lparr>acceptError := Some ErrCanceled\<rparr>,
      [EvNewTicker 1000000000,
       EvWsClose 0 ''new connection inbound'', EvWsDial ''ws://broker/listen'',
       EvWsClose 0 ''new connection inbound'', EvWsDial ''ws://broker/listen'',
       EvTickerStop, EvWsClose 0 ''''],
      SupStopped)"
    by (simp add: rep connectionRetryInterval_def give_up_def Close_def listening_def)
  have r': "errors_Is ErrKeepAliveTimeout ErrEOF \<or>
            errors_Is ErrKeepAliveTimeout ErrKeepAliveTimeout" by simp
  have f': "dial_failures timing_out_broker 1 listening 0 = Some (listening, [])" by simp
  have d': "dial timing_out_broker (1 + 0) listening =
             (listening,
              [EvWsClose 0 ''new connection inbound'', EvWsDial ''ws://broker/listen''],
              Inl (ErrWrap ''failed to WebSocket dial: '' ErrDeadlineExceeded))"
    by (simp add: dial_def timing_out_broker_def listening_def)
  have e': "errors_Is (ErrWrap ''failed to WebSocket dial: '' ErrDeadlineExceeded) ErrCanceled \<or>
            errors_Is (ErrWrap ''failed to WebSocket dial: '' ErrDeadlineExceeded)
              ErrDeadlineExceeded" by simp
  from supervisor_redials_every_tick[OF r' f', where ins = "[]" and l' = listening
         and derr = "ErrWrap ''failed to WebSocket dial: '' ErrDeadlineExceeded"
         and tr' = "[EvWsClose 0 ''new connection inbound'', EvWsDial ''ws://broker/listen'']"]
       d' e'
  have timing:
   "supervise timing_out_broker 1 listening [AcceptFailed ErrKeepAliveTimeout, Tick] =
     (listening\<lparr>acceptError :=
        Some (ErrWrap ''failed to WebSocket dial: '' ErrDeadlineExceeded)\<rparr>,
      [EvNewTicker 1000000000,
       EvWsClose 0 ''new connection inbound'', EvWsDial ''ws://broker/listen'',
       EvTickerStop, EvWsClose 0 ''''],
      SupStopped)"
    by (simp add: connectionRetryInterval_def give_up_def Close_def listening_def)
  from r refusing timing show ?thesis by simp
qed

subsection \<open>The terminal error and Close\<close>

text \<open>
  C3, as the claim states it, fails: the context ends while the loop retries, the
  goroutine stores \<open>context canceled\<close> in \<open>acceptError\<close>, and a later \<open>Close\<close>
  returns \<open>nil\<close>, the result of closing the websocket.
\<close>

theorem Close_ignores_acceptError_counterexample:
  "acceptError (fst (supervise refusing_broker 1 listening
                       [AcceptFailed ErrEOF, CtxDone CtxCanceled])) = Some ErrCanceled \<and>
   snd (Close refusing_broker (fst (supervise refusing_broker 1 listening
                       [AcceptFailed ErrEOF, CtxDone CtxCanceled]))) = CloseReturn None"
  by (simp add: refusing_broker_def listening_def give_up_def Close_def)

text \<open>
  C3, amended. When the goroutine of \<open>Listen\<close> gives up with an error, it stores the
  error in \<open>acceptError\<close> and closes the listener; a later \<open>Close\<close> returns the result
  of closing the broker websocket, whatever \<open>acceptError\<close> holds.
\<close>

theorem Close_returns_websocket_result:
  assumes "ws l = Some w" and "give_up env l err = (l', tr, st)"
  shows "acceptError l' = Some err \<and> ws l' = Some w \<and>
         snd (Close env l') = CloseReturn (wsClose env w) \<and>
         snd (Close env (l'\<lparr>acceptError := e\<rparr>)) = snd (Close env l')"
  using assms by (auto simp: give_up_def Let_def Close_def)

theorem Close_returns_websocket_result_witness:
  "ws listening = Some 0 \<and>
   give_up refusing_broker listening ErrCanceled =
     (listening\<lparr>acceptError := Some ErrCanceled\<rparr>, [EvWsClose 0 ''''], SupStopped) \<and>
   snd (Close refusing_broker (listening\<lparr>acceptError := Some ErrCanceled\<rparr>)) = CloseReturn None"
proof -
  have w: "ws listening = Some 0" by (simp add: listening_def)
  have g: "give_up refusing_broker listening ErrCanceled =
     (listening\<lparr>acceptError := Some ErrCanceled\<rparr>, [EvWsClose 0 ''''], SupStopped)"
    by (simp add: give_up_def Close_def listening_def)
  from Close_returns_websocket_result[OF w g, where e = None] w g show ?thesis
    by (simp add: refusing_broker_def)
qed

subsection \<open>Errors of a negotiation\<close>

lemma fst_fail [simp]: "fst (fail env i l rtc err) = l"
  by (simp add: fail_def)

lemma error_protocol_fail: "error_protocol env i (fail env i l rtc err)"
  by (simp add: error_protocol_def fail_def)

lemma error_protocol_after:
  assumes "\<forall>e\<in>set evs. \<not> is_teardown e" and "error_protocol env i r"
  shows "error_protocol env i (after_events evs r)"
proof (cases r)
  case (fields l tr res)
  show ?thesis
  proof (cases res)
    case (Going rtc pending)
    with fields assms show ?thesis by (auto simp: error_protocol_def)
  next
    case (Returned err rtc)
    with fields assms(2) obtain pre where
      "tr = pre @ closeError env i rtc err" "\<forall>e\<in>set pre. \<not> is_teardown e"
      by (auto simp: error_protocol_def)
    with assms(1) fields Returned show ?thesis
      by (auto simp: error_protocol_def intro!: exI[of _ "evs @ pre"])
  qed
qed

lemma probe_servers_no_teardown:
  "\<forall>e\<in>set (fst (probe_servers env i servers)). \<not> is_teardown e"
  by (induction servers) (auto simp: after_events2_def split: option.splits prod.splits)

lemma add_pending_no_teardown:
  "\<forall>e\<in>set (fst (add_pending env i p cs)). \<not> is_teardown e"
  by (induction cs) (auto simp: after_events2_def split: option.splits prod.splits)

lemma error_protocol_answer_offer:
  "error_protocol env i (answer_offer env i l p pending offer)"
proof -
  have pend: "error_protocol env i
      (case add_pending env i p pending of
         (tr, Some err) \<Rightarrow> after_events tr (fail env i l (Some p) err)
       | (tr, None) \<Rightarrow> (l, tr, Going (Some p) []))"
  proof (cases "add_pending env i p pending")
    case (Pair tr r)
    with add_pending_no_teardown[of env i p pending]
    have nt: "\<forall>e\<in>set tr. \<not> is_teardown e" by simp
    show ?thesis
    proof (cases r)
      case None
      with Pair nt show ?thesis by (simp add: error_protocol_def)
    next
      case (Some err)
      with Pair error_protocol_after[OF nt error_protocol_fail] show ?thesis by simp
    qed
  qed
  show ?thesis
    unfolding answer_offer_def Let_def
    by (intro error_protocol_after; simp?;
        (simp split: option.split sum.split add: error_protocol_fail pend;
         intro conjI impI allI error_protocol_after; simp?)+)
qed

lemma error_protocol_handle_offer:
  "error_protocol env i (handle_offer env i l rtc pending msg offer)"
proof (cases "Servers msg")
  case None
  then show ?thesis by (simp add: handle_offer_def error_protocol_fail)
next
  case (Some servers)
  obtain probes r where pr: "probe_servers env i servers = (probes, r)"
    by (cases "probe_servers env i servers") auto
  with probe_servers_no_teardown[of env i servers]
  have nt: "\<forall>e\<in>set probes. \<not> is_teardown e" by simp
  show ?thesis
  proof (cases r)
    case (Some err)
    with \<open>Servers msg = Some servers\<close> pr error_protocol_after[OF nt error_protocol_fail]
    show ?thesis by (simp add: handle_offer_def)
  next
    case None
    have rest: "error_protocol env i
       (case (if TURNProxyURL msg \<noteq> '''' then urlParse env i (TURNProxyURL msg) else None) of
        Some err \<Rightarrow> fail env i l rtc (ErrWrap ''parse turn proxy url: '' err)
      | None \<Rightarrow>
     (let turnProxy = (if TURNProxyURL msg \<noteq> ''''
                       then Some (TURNProxyURL msg, turnProxyAuthToken l) else None)
      in case newPeerConnection env i servers turnProxy of
        Inl err \<Rightarrow> fail env i l None err
      | Inr p \<Rightarrow>
          after_events
            [EvNewPeerConnection p, EvOnConnectionStateChange p, EvProxyICECandidates p,
             EvOnDataChannel p]
            (answer_offer env i (l\<lparr>connClosers := connClosers l @ [p]\<rparr>) p
               pending offer)))"
      by (auto simp: Let_def error_protocol_fail split: option.split sum.split
               intro!: error_protocol_after error_protocol_answer_offer)
    from None \<open>Servers msg = Some servers\<close> pr error_protocol_after[OF nt rest]
    show ?thesis by (simp add: handle_offer_def)
  qed
qed

lemma error_protocol_offer_part:
  "error_protocol env i (offer_part env i l rtc pending msg)"
  by (cases "Offer msg")
     (simp_all add: offer_part_def error_protocol_handle_offer, simp add: error_protocol_def)

lemma error_protocol_handle_frame:
  "error_protocol env i (handle_frame env i l rtc pending msg)"
  unfolding handle_frame_def
  by (auto simp: error_protocol_fail error_protocol_offer_part
           split: option.split intro!: error_protocol_after)
     (simp add: error_protocol_def)

lemma negotiate_loop_returned:
  assumes "negotiate_loop env i l rtc pending frames = (l', tr, Returned err r)"
  shows "\<exists>pre j. i \<le> j \<and> j < i + length frames \<and> tr = pre @ closeError env j r err \<and>
           (\<forall>e\<in>set pre. \<not> is_teardown e)"
  using assms
proof (induction frames arbitrary: i l rtc pending tr)
  case Nil
  then show ?case by simp
next
  case (Cons frame frames)
  show ?case
  proof (cases frame)
    case (Inl derr)
    with Cons.prems show ?thesis by (auto simp: fail_def intro!: exI[of _ "[]"] exI[of _ i])
  next
    case (Inr msg)
    obtain l1 tr1 res1 where hf: "handle_frame env i l rtc pending msg = (l1, tr1, res1)"
      by (cases "handle_frame env i l rtc pending msg") auto
    have ep: "error_protocol env i (l1, tr1, res1)"
      using error_protocol_handle_frame[of env i l rtc pending msg] hf by simp
    show ?thesis
    proof (cases res1)
      case (Returned err1 r1)
      with Cons.prems Inr hf have "tr = tr1" "err1 = err" "r1 = r" by auto
      with ep Returned obtain pre where
        "tr = pre @ closeError env i r err" "\<forall>e\<in>set pre. \<not> is_teardown e"
        by (auto simp: error_protocol_def)
      then show ?thesis by (intro exI[of _ pre] exI[of _ i]) simp
    next
      case (Going rtc1 pending1)
      obtain l2 tr2 res2 where
        nl: "negotiate_loop env (Suc i) l1 rtc1 pending1 frames = (l2, tr2, res2)"
        by (cases "negotiate_loop env (Suc i) l1 rtc1 pending1 frames") auto
      with Cons.prems Inr hf Going have eq: "tr = tr1 @ tr2" "res2 = Returned err r" "l2 = l'"
        by auto
      from Cons.IH[of "Suc i" l1 rtc1 pending1 tr2] nl eq obtain pre j where
        j: "Suc i \<le> j" "j < Suc i + length frames" and
        tr2: "tr2 = pre @ closeError env j r err" and nt: "\<forall>e\<in>set pre. \<not> is_teardown e"
        by auto
      from ep Going have nt1: "\<forall>e\<in>set tr1. \<not> is_teardown e"
        by (simp add: error_protocol_def)
      show ?thesis
        by (intro exI[of _ "tr1 @ pre"] exI[of _ j]) (use j tr2 nt nt1 eq in auto)
    qed
  qed
qed

text \<open>A negotiation over more frames goes on from where it stood.\<close>

lemma negotiate_loop_append:
  "negotiate_loop env i l rtc pending (fs @ gs) =
     (case negotiate_loop env i l rtc pending fs of
        (l1, tr1, Going rtc1 pending1) \<Rightarrow>
          after_events tr1 (negotiate_loop env (i + length fs) l1 rtc1 pending1 gs)
      | (l1, tr1, Returned err r) \<Rightarrow> (l1, tr1, Returned err r))"
proof (induction fs arbitrary: i l rtc pending)
  case Nil
  then show ?case by simp
next
  case (Cons f fs)
  show ?case
  proof (cases f)
    case (Inl derr)
    then show ?thesis by (simp add: fail_def)
  next
    case (Inr msg)
    obtain l1 tr1 res1 where hf: "handle_frame env i l rtc pending msg = (l1, tr1, res1)"
      by (cases "handle_frame env i l rtc pending msg") auto
    show ?thesis
    proof (cases res1)
      case (Returned err r)
      with Inr hf show ?thesis by simp
    next
      case (Going rtc1 pending1)
      with Inr hf Cons.IH[of "Suc i" l1 rtc1 pending1] show ?thesis
        by (cases "negotiate_loop env (Suc i) l1 rtc1 pending1 fs")
           (auto split: neg_result.splits)
    qed
  qed
qed

lemma negotiate_then:
  assumes "negotiate env l0 before = (l, tr0, Going rtc pending)"
  shows "negotiate env l0 (before @ Inr msg # rest) =
           (case handle_frame env (length before) l rtc pending msg of
              (l', tr, Returned err r) \<Rightarrow> (l', tr0 @ tr, Returned err r)
            | (l', tr, Going rtc' pending') \<Rightarrow>
                after_events (tr0 @ tr)
                  (negotiate_loop env (Suc (length before)) l' rtc' pending' rest))"
  using assms negotiate_loop_append[of env 0 l0 None "[]" before "Inr msg # rest"]
  by (auto simp: negotiate_def split: prod.splits neg_result.splits)

lemma closeError_shape:
  "closeError env i rtc err =
     [EvConnWrite (zero_BrokerMessage\<lparr>Error := error_text err\<rparr>), EvConnClose] @
     close_unless_connected env i rtc"
  by (simp add: closeError_def close_unless_connected_def)

text \<open>The probes of the servers of an offer, up to the first that fails.\<close>

lemma probe_servers_passing:
  assumes "\<forall>s\<in>set passing. Username s = turnProxyMagicUsername env \<or> DialICE env i s = None"
  shows "probe_servers env i (passing @ servers) =
           after_events2
             (map EvDialICE (filter (\<lambda>s. Username s \<noteq> turnProxyMagicUsername env) passing))
             (probe_servers env i servers)"
  using assms
proof (induction passing)
  case Nil
  then show ?case by (simp add: after_events2_def)
next
  case (Cons s passing)
  then show ?case by (cases "probe_servers env i servers") (auto simp: after_events2_def)
qed

lemma probe_servers_skips_sentinel:
  "EvDialICE s \<in> set (fst (probe_servers env i servers)) \<Longrightarrow>
     Username s \<noteq> turnProxyMagicUsername env"
  by (induction servers) (auto simp: after_events2_def split: if_splits option.splits prod.splits)

text \<open>The errors of an offer: no servers, an unreachable server, an offer that cannot
  be applied, an answer that cannot be created.\<close>

lemma offer_frame_handled:
  assumes "Candidate msg = ''''" and "Offer msg = Some offer"
  shows "handle_frame env i l rtc pending msg = handle_offer env i l rtc pending msg offer"
  using assms by (simp add: handle_frame_def offer_part_def)

lemma offer_to_new_peer:
  assumes "Servers msg = Some servers"
      and "probe_servers env i servers = (probes, None)"
      and "TURNProxyURL msg \<noteq> '''' \<longrightarrow> urlParse env i (TURNProxyURL msg) = None"
      and "newPeerConnection env i servers
             (if TURNProxyURL msg \<noteq> ''''
              then Some (TURNProxyURL msg, turnProxyAuthToken l) else None) = Inr p"
  shows "handle_offer env i l rtc pending msg offer =
           after_events
             (probes @ [EvNewPeerConnection p, EvOnConnectionStateChange p,
                        EvProxyICECandidates p, EvOnDataChannel p])
             (answer_offer env i (l\<lparr>connClosers := connClosers l @ [p]\<rparr>) p pending offer)"
  using assms by (cases "TURNProxyURL msg = ''''") (simp_all add: handle_offer_def Let_def)

lemma negotiate_offer_then:
  assumes "negotiate env l0 before = (l, tr0, Going rtc pending)"
      and "Candidate msg = ''''" and "Offer msg = Some offer"
      and "handle_offer env (length before) l rtc pending msg offer = (l', tr, Returned err r)"
  shows "negotiate env l0 (before @ Inr msg # rest) = (l', tr0 @ tr, Returned err r)"
proof -
  have "handle_frame env (length before) l rtc pending msg = (l', tr, Returned err r)"
    using offer_frame_handled[OF assms(2,3)] assms(4) by simp
  with negotiate_then[OF assms(1), of msg rest] show ?thesis by simp
qed

lemma missing_servers_returns:
  assumes "Servers msg = None"
  shows "handle_offer env i l rtc pending msg offer =
           (l,
            [EvConnWrite (zero_BrokerMessage\<lparr>Error := ''ICEServers must be provided''\<rparr>),
             EvConnClose] @ close_unless_connected env i rtc,
            Returned (ErrOther ''ICEServers must be provided'') rtc)"
  using assms by (simp add: handle_offer_def fail_def closeError_shape)

lemma unreachable_server_returns:
  assumes "Servers msg = Some (passing @ bad # others)"
      and "\<forall>s\<in>set passing. Username s = turnProxyMagicUsername env \<or> DialICE env i s = None"
      and "Username bad \<noteq> turnProxyMagicUsername env"
      and "DialICE env i bad = Some derr"
  shows "handle_offer env i l rtc pending msg offer =
           (l,
            map EvDialICE (filter (\<lambda>s. Username s \<noteq> turnProxyMagicUsername env) passing) @
            [EvDialICE bad,
             EvConnWrite (zero_BrokerMessage
               \<lparr>Error := ''dial server '' @ fmt_urls (URLs bad) @ '': '' @ error_text derr\<rparr>),
             EvConnClose] @ close_unless_connected env i rtc,
            Returned (ErrWrap (''dial server '' @ fmt_urls (URLs bad) @ '': '') derr) rtc)"
proof -
  have "probe_servers env i (bad # others) =
          ([EvDialICE bad], Some (ErrWrap (''dial server '' @ fmt_urls (URLs bad) @ '': '') derr))"
    using assms(3,4) by simp
  with probe_servers_passing[OF assms(2), of "bad # others"]
  have "probe_servers env i (passing @ bad # others) =
          (map EvDialICE (filter (\<lambda>s. Username s \<noteq> turnProxyMagicUsername env) passing) @
           [EvDialICE bad],
           Some (ErrWrap (''dial server '' @ fmt_urls (URLs bad) @ '': '') derr))"
    by (simp add: after_events2_def)
  with assms(1) show ?thesis
    by (simp add: handle_offer_def fail_def closeError_shape)
qed

lemma apply_offer_failure_returns:
  assumes "Servers msg = Some servers"
      and "probe_servers env i servers = (probes, None)"
      and "TURNProxyURL msg \<noteq> '''' \<longrightarrow> urlParse env i (TURNProxyURL msg) = None"
      and "newPeerConnection env i servers
             (if TURNProxyURL msg \<noteq> ''''
              then Some (TURNProxyURL msg, turnProxyAuthToken l) else None) = Inr p"
      and "setRemoteDescription env i p offer = Some aerr"
  shows "handle_offer env i l rtc pending msg offer =
           (l\<lparr>connClosers := connClosers l @ [p]\<rparr>,
            probes @
            [EvNewPeerConnection p, EvOnConnectionStateChange p, EvProxyICECandidates p,
             EvOnDataChannel p, EvSetRemoteDescription p offer,
             EvConnWrite (zero_BrokerMessage\<lparr>Error := ''apply offer: '' @ error_text aerr\<rparr>),
             EvConnClose] @ close_unless_connected env i (Some p),
            Returned (ErrWrap ''apply offer: '' aerr) (Some p))"
proof -
  have "answer_offer env i (l\<lparr>connClosers := connClosers l @ [p]\<rparr>) p pending offer =
           (l\<lparr>connClosers := connClosers l @ [p]\<rparr>,
            [EvSetRemoteDescription p offer,
             EvConnWrite (zero_BrokerMessage\<lparr>Error := ''apply offer: '' @ error_text aerr\<rparr>),
             EvConnClose] @ close_unless_connected env i (Some p),
            Returned (ErrWrap ''apply offer: '' aerr) (Some p))"
    using assms(5) by (simp add: answer_offer_def fail_def closeError_shape)
  with offer_to_new_peer[OF assms(1-4), of rtc pending offer] show ?thesis by simp
qed

lemma create_answer_failure_returns:
  assumes "Servers msg = Some servers"
      and "probe_servers env i servers = (probes, None)"
      and "TURNProxyURL msg \<noteq> '''' \<longrightarrow> urlParse env i (TURNProxyURL msg) = None"
      and "newPeerConnection env i servers
             (if TURNProxyURL msg \<noteq> ''''
              then Some (TURNProxyURL msg, turnProxyAuthToken l) else None) = Inr p"
      and "setRemoteDescription env i p offer = None"
      and "createAnswer env i p = Inl cerr"
  shows "handle_offer env i l rtc pending msg offer =
           (l\<lparr>connClosers := connClosers l @ [p]\<rparr>,
            probes @
            [EvNewPeerConnection p, EvOnConnectionStateChange p, EvProxyICECandidates p,
             EvOnDataChannel p, EvSetRemoteDescription p offer, EvCreateAnswer p,
             EvConnWrite (zero_BrokerMessage\<lparr>Error := ''create answer: '' @ error_text cerr\<rparr>),
             EvConnClose] @ close_unless_connected env i (Some p),
            Returned (ErrWrap ''create answer: '' cerr) (Some p))"
proof -
  have "answer_offer env i (l\<lparr>connClosers := connClosers l @ [p]\<rparr>) p pending offer =
           (l\<lparr>connClosers := connClosers l @ [p]\<rparr>,
            [EvSetRemoteDescription p offer, EvCreateAnswer p,
             EvConnWrite (zero_BrokerMessage\<lparr>Error := ''create answer: '' @ error_text cerr\<rparr>),
             EvConnClose] @ close_unless_connected env i (Some p),
            Returned (ErrWrap ''create answer: '' cerr) (Some p))"
    using assms(5,6) by (simp add: answer_offer_def fail_def closeError_shape)
  with offer_to_new_peer[OF assms(1-4), of rtc pending offer] show ?thesis by simp
qed

lemma returned_shape:
  assumes ret: "negotiate env la frames = (l', tr, Returned err r)"
  shows "\<exists>pre j. j < length frames \<and>
               tr = pre @ [EvConnWrite (zero_BrokerMessage\<lparr>Error := error_text err\<rparr>),
                           EvConnClose] @ close_unless_connected env j r \<and>
               (\<forall>e\<in>set pre. \<not> is_teardown e) \<and>
               (\<forall>p. EvPeerClose p \<in> set tr \<longleftrightarrow>
                      r = Some p \<and> connectionState env j p \<noteq> PeerConnectionStateConnected)"
proof -
  from negotiate_loop_returned[of env 0 la None "[]" frames l' tr err r] ret
  obtain pre j where j: "j < length frames" and tr: "tr = pre @ closeError env j r err"
    and nt: "\<forall>e\<in>set pre. \<not> is_teardown e"
    by (auto simp: negotiate_def)
  have np: "\<And>p. EvPeerClose p \<notin> set pre" using nt by fastforce
  have c: "closeError env j r err =
     [EvConnWrite (zero_BrokerMessage\<lparr>Error := error_text err\<rparr>), EvConnClose] @
     close_unless_connected env j r" by (rule closeError_shape)
  have i: "\<forall>p. EvPeerClose p \<in> set tr \<longleftrightarrow>
                      r = Some p \<and> connectionState env j p \<noteq> PeerConnectionStateConnected"
    using np unfolding tr c by (cases r) (auto simp: close_unless_connected_def)
  show ?thesis
    using j tr c nt i by blast
qed

text \<open>
  C2, as the claim states it, fails: two offers come on one stream, each makes a peer
  (7, then 8), and the second offer cannot be applied. The listener sends the error
  frame, closes the stream and closes peer 8; peer 7, which never reached the state
  connected, is not closed.
\<close>

theorem earlier_peer_left_open_counterexample:
  "negotiate second_offer_fails listening [Inr offer_frame, Inr offer_frame] =
     (listening\<lparr>connClosers := [7, 8]\<rparr>,
      [EvDialICE stun_server, EvNewPeerConnection 7, EvOnConnectionStateChange 7,
       EvProxyICECandidates 7, EvOnDataChannel 7, EvSetRemoteDescription 7 ''offer'',
       EvCreateAnswer 7, EvSetLocalDescription 7 ''answer'', EvFlushCandidates 7,
       EvConnWrite (zero_BrokerMessage\<lparr>Answer := Some ''answer''\<rparr>),
       EvDialICE stun_server, EvNewPeerConnection 8, EvOnConnectionStateChange 8,
       EvProxyICECandidates 8, EvOnDataChannel 8, EvSetRemoteDescription 8 ''offer'',
       EvConnWrite (zero_BrokerMessage\<lparr>Error := ''apply offer: invalid offer''\<rparr>),
       EvConnClose, EvPeerClose 8],
      Returned (ErrWrap ''apply offer: '' (ErrOther ''invalid offer'')) (Some 8)) \<and>
   connectionState second_offer_fails 1 7 = PeerConnectionStateConnecting \<and>
   EvPeerClose 7 \<notin> set (fst (snd (negotiate second_offer_fails listening
                                      [Inr offer_frame, Inr offer_frame])))"
  by (simp add: negotiate_def handle_frame_def offer_part_def handle_offer_def
        answer_offer_def fail_def closeError_def second_offer_fails_def peers_ok_def
        offer_frame_def zero_BrokerMessage_def stun_server_def listening_def)

text \<open>
  C2, amended. Whenever a negotiation returns with an error, its events end with the
  frame whose \<open>error\<close> field is the text of the error, then the close of the signaling
  stream, then the close of the peer that the negotiation holds at that moment (the one
  of the latest offer) exactly when there is one and its state is not connected; nothing
  was closed before, and no other peer is closed. At any point of a negotiation, an
  offer without servers, an offer with an unreachable server, an offer that cannot be
  applied and an answer that cannot be created each end the negotiation in that way, with
  the texts \<open>ICEServers must be provided\<close>, \<open>dial server [URLs]: text\<close>,
  \<open>apply offer: text\<close> and \<open>create answer: text\<close>.
\<close>

theorem negotiation_error_closes:
  assumes "negotiate env l0 before = (l, tr0, Going rtc pending)"
      and "Candidate msg = ''''" and "Offer msg = Some offer"
  shows "(negotiate env la frames = (l', tr, Returned err r) \<longrightarrow>
            (\<exists>pre j. j < length frames \<and>
               tr = pre @ [EvConnWrite (zero_BrokerMessage\<lparr>Error := error_text err\<rparr>),
                           EvConnClose] @ close_unless_connected env j r \<and>
               (\<forall>e\<in>set pre. \<not> is_teardown e) \<and>
               (\<forall>p. EvPeerClose p \<in> set tr \<longleftrightarrow>
                      r = Some p \<and> connectionState env j p \<noteq> PeerConnectionStateConnected))) \<and>
         (Servers msg = None \<longrightarrow>
            negotiate env l0 (before @ Inr msg # rest) =
              (l,
               tr0 @
               [EvConnWrite (zero_BrokerMessage\<lparr>Error := ''ICEServers must be provided''\<rparr>),
                EvConnClose] @ close_unless_connected env (length before) rtc,
               Returned (ErrOther ''ICEServers must be provided'') rtc)) \<and>
         (Servers msg = Some (passing @ bad # others) \<longrightarrow>
          (\<forall>s\<in>set passing. Username s = turnProxyMagicUsername env \<or>
                            DialICE env (length before) s = None) \<longrightarrow>
          Username bad \<noteq> turnProxyMagicUsername env \<longrightarrow>
          DialICE env (length before) bad = Some derr \<longrightarrow>
            negotiate env l0 (before @ Inr msg # rest) =
              (l,
               tr0 @
               map EvDialICE (filter (\<lambda>s. Username s \<noteq> turnProxyMagicUsername env) passing) @
               [EvDialICE bad,
                EvConnWrite (zero_BrokerMessage
                  \<lparr>Error := ''dial server '' @ fmt_urls (URLs bad) @ '': '' @ error_text derr\<rparr>),
                EvConnClose] @ close_unless_connected env (length before) rtc,
               Returned (ErrWrap (''dial server '' @ fmt_urls (URLs bad) @ '': '') derr) rtc)) \<and>
         (Servers msg = Some servers \<longrightarrow>
          probe_servers env (length before) servers = (probes, None) \<longrightarrow>
          (TURNProxyURL msg \<noteq> '''' \<longrightarrow> urlParse env (length before) (TURNProxyURL msg) = None) \<longrightarrow>
          newPeerConnection env (length before) servers
             (if TURNProxyURL msg \<noteq> ''''
              then Some (TURNProxyURL msg, turnProxyAuthToken l) else None) = Inr p \<longrightarrow>
          (setRemoteDescription env (length before) p offer = Some aerr \<longrightarrow>
            negotiate env l0 (before @ Inr msg # rest) =
              (l\<lparr>connClosers := connClosers l @ [p]\<rparr>,
               tr0 @ probes @
               [EvNewPeerConnection p, EvOnConnectionStateChange p, EvProxyICECandidates p,
                EvOnDataChannel p, EvSetRemoteDescription p offer,
                EvConnWrite (zero_BrokerMessage
                  \<lparr>Error := ''apply offer: '' @ error_text aerr\<rparr>),
                EvConnClose] @ close_unless_connected env (length before) (Some p),
               Returned (ErrWrap ''apply offer: '' aerr) (Some p))) \<and>
          (setRemoteDescription env (length before) p offer = None \<longrightarrow>
           createAnswer env (length before) p = Inl cerr \<longrightarrow>
            negotiate env l0 (before @ Inr msg # rest) =
              (l\<lparr>connClosers := connClosers l @ [p]\<rparr>,
               tr0 @ probes @
               [EvNewPeerConnection p, EvOnConnectionStateChange p, EvProxyICECandidates p,
                EvOnDataChannel p, EvSetRemoteDescription p offer, EvCreateAnswer p,
                EvConnWrite (zero_BrokerMessage
                  \<lparr>Error := ''create answer: '' @ error_text cerr\<rparr>),
                EvConnClose] @ close_unless_connected env (length before) (Some p),
               Returned (ErrWrap ''create answer: '' cerr) (Some p))))"
  apply (intro conjI impI)
      apply (erule returned_shape)
     apply (rule negotiate_offer_then[OF assms], erule missing_servers_returns)
    apply (rule negotiate_offer_then[OF assms], erule (3) unreachable_server_returns)
   apply (rule negotiate_offer_then[OF assms], erule (4) apply_offer_failure_returns)
  apply (rule negotiate_offer_then[OF assms], erule (5) create_answer_failure_returns)
  done

theorem negotiation_error_closes_witness:
  "negotiate second_offer_fails listening [Inr offer_frame] =
     (listening\<lparr>connClosers := [7]\<rparr>,
      [EvDialICE stun_server, EvNewPeerConnection 7, EvOnConnectionStateChange 7,
       EvProxyICECandidates 7, EvOnDataChannel 7, EvSetRemoteDescription 7 ''offer'',
       EvCreateAnswer 7, EvSetLocalDescription 7 ''answer'', EvFlushCandidates 7,
       EvConnWrite (zero_BrokerMessage\<lparr>Answer := Some ''answer''\<rparr>)],
      Going (Some 7) []) \<and>
   negotiate second_offer_fails listening [Inr offer_frame, Inr offer_frame] =
     (listening\<lparr>connClosers := [7, 8]\<rparr>,
      [EvDialICE stun_server, EvNewPeerConnection 7, EvOnConnectionStateChange 7,
       EvProxyICECandidates 7, EvOnDataChannel 7, EvSetRemoteDescription 7 ''offer'',
       EvCreateAnswer 7, EvSetLocalDescription 7 ''answer'', EvFlushCandidates 7,
       EvConnWrite (zero_BrokerMessage\<lparr>Answer := Some ''answer''\<rparr>),
       EvDialICE stun_server, EvNewPeerConnection 8, EvOnConnectionStateChange 8,
       EvProxyICECandidates 8, EvOnDataChannel 8, EvSetRemoteDescription 8 ''offer'',
       EvConnWrite (zero_BrokerMessage\<lparr>Error := ''apply offer: invalid offer''\<rparr>),
       EvConnClose, EvPeerClose 8],
      Returned (ErrWrap ''apply offer: '' (ErrOther ''invalid offer'')) (Some 8)) \<and>
   negotiate second_offer_fails listening
     [Inr offer_frame, Inr (zero_BrokerMessage\<lparr>Offer := Some ''offer''\<rparr>)] =
     (listening\<lparr>connClosers := [7]\<rparr>,
      [EvDialICE stun_server, EvNewPeerConnection 7, EvOnConnectionStateChange 7,
       EvProxyICECandidates 7, EvOnDataChannel 7, EvSetRemoteDescription 7 ''offer'',
       EvCreateAnswer 7, EvSetLocalDescription 7 ''answer'', EvFlushCandidates 7,
       EvConnWrite (zero_BrokerMessage\<lparr>Answer := Some ''answer''\<rparr>),
       EvConnWrite (zero_BrokerMessage\<lparr>Error := ''ICEServers must be provided''\<rparr>),
       EvConnClose, EvPeerClose 7],
      Returned (ErrOther ''ICEServers must be provided'') (Some 7))"
proof -
  let ?noservers = "zero_BrokerMessage\<lparr>Offer := Some ''offer''\<rparr>"
  have b: "negotiate second_offer_fails listening [Inr offer_frame] =
     (listening\<lparr>connClosers := [7]\<rparr>,
      [EvDialICE stun_server, EvNewPeerConnection 7, EvOnConnectionStateChange 7,
       EvProxyICECandidates 7, EvOnDataChannel 7, EvSetRemoteDescription 7 ''offer'',
       EvCreateAnswer 7, EvSetLocalDescription 7 ''answer'', EvFlushCandidates 7,
       EvConnWrite (zero_BrokerMessage\<lparr>Answer := Some ''answer''\<rparr>)],
      Going (Some 7) [])"
    by (simp add: negotiate_def handle_frame_def offer_part_def handle_offer_def
          answer_offer_def second_offer_fails_def peers_ok_def offer_frame_def
          zero_BrokerMessage_def stun_server_def listening_def)
  have c: "Candidate offer_frame = ''''" and o: "Offer offer_frame = Some ''offer''"
    by (simp_all add: offer_frame_def zero_BrokerMessage_def)
  have c': "Candidate ?noservers = ''''" and o': "Offer ?noservers = Some ''offer''"
    by (simp_all add: zero_BrokerMessage_def)
  have s: "Servers offer_frame = Some [stun_server]"
    by (simp add: offer_frame_def zero_BrokerMessage_def)
  have s': "Servers ?noservers = None" by (simp add: zero_BrokerMessage_def)
  have pr: "probe_servers second_offer_fails (length [Inr offer_frame :: go_error + BrokerMessage])
              [stun_server] = ([EvDialICE stun_server], None)"
    by (simp add: second_offer_fails_def peers_ok_def stun_server_def)
  have u: "TURNProxyURL offer_frame \<noteq> '''' \<longrightarrow>
             urlParse second_offer_fails (length [Inr offer_frame :: go_error + BrokerMessage])
               (TURNProxyURL offer_frame) = None"
    by (simp add: offer_frame_def zero_BrokerMessage_def)
  have np: "newPeerConnection second_offer_fails
              (length [Inr offer_frame :: go_error + BrokerMessage]) [stun_server]
              (if TURNProxyURL offer_frame \<noteq> ''''
               then Some (TURNProxyURL offer_frame,
                          turnProxyAuthToken (listening\<lparr>connClosers := [7]\<rparr>))
               else None) = Inr 8"
    by (simp add: second_offer_fails_def peers_ok_def)
  have sr: "setRemoteDescription second_offer_fails
              (length [Inr offer_frame :: go_error + BrokerMessage]) 8 ''offer'' =
              Some (ErrOther ''invalid offer'')"
    by (simp add: second_offer_fails_def peers_ok_def)
  have st: "\<And>i p. connectionState second_offer_fails i p = PeerConnectionStateConnecting"
    by (simp add: second_offer_fails_def peers_ok_def)
  from negotiation_error_closes[OF b c o, where servers = "[stun_server]"
         and probes = "[EvDialICE stun_server]" and p = 8
         and aerr = "ErrOther ''invalid offer''" and rest = "[]"] s pr u np sr
  have two: "negotiate second_offer_fails listening [Inr offer_frame, Inr offer_frame] =
     (listening\<lparr>connClosers := [7, 8]\<rparr>,
      [EvDialICE stun_server, EvNewPeerConnection 7, EvOnConnectionStateChange 7,
       EvProxyICECandidates 7, EvOnDataChannel 7, EvSetRemoteDescription 7 ''offer'',
       EvCreateAnswer 7, EvSetLocalDescription 7 ''answer'', EvFlushCandidates 7,
       EvConnWrite (zero_BrokerMessage\<lparr>Answer := Some ''answer''\<rparr>),
       EvDialICE stun_server, EvNewPeerConnection 8, EvOnConnectionStateChange 8,
       EvProxyICECandidates 8, EvOnDataChannel 8, EvSetRemoteDescription 8 ''offer'',
       EvConnWrite (zero_BrokerMessage\<lparr>Error := ''apply offer: invalid offer''\<rparr>),
       EvConnClose, EvPeerClose 8],
      Returned (ErrWrap ''apply offer: '' (ErrOther ''invalid offer'')) (Some 8))"
    by (simp add: close_unless_connected_def st)
  from negotiation_error_closes[OF b c' o', where rest = "[]"] s'
  have none: "negotiate second_offer_fails listening [Inr offer_frame, Inr ?noservers] =
     (listening\<lparr>connClosers := [7]\<rparr>,
      [EvDialICE stun_server, EvNewPeerConnection 7, EvOnConnectionStateChange 7,
       EvProxyICECandidates 7, EvOnDataChannel 7, EvSetRemoteDescription 7 ''offer'',
       EvCreateAnswer 7, EvSetLocalDescription 7 ''answer'', EvFlushCandidates 7,
       EvConnWrite (zero_BrokerMessage\<lparr>Answer := Some ''answer''\<rparr>),
       EvConnWrite (zero_BrokerMessage\<lparr>Error := ''ICEServers must be provided''\<rparr>),
       EvConnClose, EvPeerClose 7],
      Returned (ErrOther ''ICEServers must be provided'') (Some 7))"
    by (simp add: close_unless_connected_def st)
  from b two none show ?thesis by (intro conjI)
qed

subsection \<open>The probe of the ICE servers\<close>

text \<open>
  C7. When an offer is handled, no server whose username is the magic username of the
  TURN proxy is probed; when no probe fails, the servers probed are all the others, in
  their order; and when the probe of a server fails after the servers before it passed,
  the negotiation returns there, its error frame reading \<open>dial server [URLs]: text\<close> with
  the URLs of that server and the text of the error of the probe.
\<close>

theorem probe_skips_sentinel_and_names_failure:
  assumes "Servers msg = Some (passing @ bad # servers)"
      and "\<forall>s\<in>set passing. Username s = turnProxyMagicUsername env \<or> DialICE env i s = None"
      and "Username bad \<noteq> turnProxyMagicUsername env"
      and "DialICE env i bad = Some err"
  shows "handle_offer env i l rtc pending msg offer =
           (l,
            map EvDialICE (filter (\<lambda>s. Username s \<noteq> turnProxyMagicUsername env) passing) @
            [EvDialICE bad,
             EvConnWrite (zero_BrokerMessage
               \<lparr>Error := ''dial server ['' @ join_space (URLs bad) @ '']: '' @ error_text err\<rparr>),
             EvConnClose] @
            (case rtc of
               None \<Rightarrow> []
             | Some p \<Rightarrow> if connectionState env i p \<noteq> PeerConnectionStateConnected
                         then [EvPeerClose p] else []),
            Returned (ErrWrap (''dial server '' @ fmt_urls (URLs bad) @ '': '') err) rtc) \<and>
         (\<forall>s. EvDialICE s \<in> set (fst (probe_servers env i all)) \<longrightarrow>
                Username s \<noteq> turnProxyMagicUsername env) \<and>
         ((\<forall>s\<in>set all. Username s = turnProxyMagicUsername env \<or> DialICE env i s = None) \<longrightarrow>
            probe_servers env i all =
              (map EvDialICE (filter (\<lambda>s. Username s \<noteq> turnProxyMagicUsername env) all), None))"
proof (intro conjI allI impI)
  have "probe_servers env i (bad # servers) =
          ([EvDialICE bad], Some (ErrWrap (''dial server '' @ fmt_urls (URLs bad) @ '': '') err))"
    using assms(3,4) by simp
  with probe_servers_passing[OF assms(2), of "bad # servers"]
  have "probe_servers env i (passing @ bad # servers) =
          (map EvDialICE (filter (\<lambda>s. Username s \<noteq> turnProxyMagicUsername env) passing) @
           [EvDialICE bad],
           Some (ErrWrap (''dial server '' @ fmt_urls (URLs bad) @ '': '') err))"
    by (simp add: after_events2_def)
  with assms(1) show "handle_offer env i l rtc pending msg offer =
           (l,
            map EvDialICE (filter (\<lambda>s. Username s \<noteq> turnProxyMagicUsername env) passing) @
            [EvDialICE bad,
             EvConnWrite (zero_BrokerMessage
               \<lparr>Error := ''dial server ['' @ join_space (URLs bad) @ '']: '' @ error_text err\<rparr>),
             EvConnClose] @
            (case rtc of
               None \<Rightarrow> []
             | Some p \<Rightarrow> if connectionState env i p \<noteq> PeerConnectionStateConnected
                         then [EvPeerClose p] else []),
            Returned (ErrWrap (''dial server '' @ fmt_urls (URLs bad) @ '': '') err) rtc)"
    by (simp add: handle_offer_def fail_def closeError_def fmt_urls_def)
next
  fix s assume "EvDialICE s \<in> set (fst (probe_servers env i all))"
  then show "Username s \<noteq> turnProxyMagicUsername env" by (rule probe_servers_skips_sentinel)
next
  assume "\<forall>s\<in>set all. Username s = turnProxyMagicUsername env \<or> DialICE env i s = None"
  from probe_servers_passing[OF this, of "[]"]
  show "probe_servers env i all =
          (map EvDialICE (filter (\<lambda>s. Username s \<noteq> turnProxyMagicUsername env) all), None)"
    by (simp add: after_events2_def)
qed

theorem probe_skips_sentinel_and_names_failure_witness:
  "handle_offer peers_ok 0 listening None []
     (zero_BrokerMessage\<lparr>Offer := Some ''offer'',
        Servers := Some [sentinel_server, stun_server, down_server, stun_server]\<rparr>) ''offer'' =
     (listening,
      [EvDialICE stun_server, EvDialICE down_server,
       EvConnWrite (zero_BrokerMessage
         \<lparr>Error := ''dial server [stun:down.example.org stun:also.example.org]: i/o timeout''\<rparr>),
       EvConnClose],
      Returned (ErrWrap ''dial server [stun:down.example.org stun:also.example.org]: ''
                  (ErrOther ''i/o timeout'')) None) \<and>
   probe_servers peers_ok 0 [sentinel_server, stun_server] = ([EvDialICE stun_server], None)"
proof -
  let ?msg = "zero_BrokerMessage\<lparr>Offer := Some ''offer'',
        Servers := Some [sentinel_server, stun_server, down_server, stun_server]\<rparr>"
  have a: "Servers ?msg = Some ([sentinel_server, stun_server] @ down_server # [stun_server])"
    by (simp add: zero_BrokerMessage_def)
  have b: "\<forall>s\<in>set [sentinel_server, stun_server].
             Username s = turnProxyMagicUsername peers_ok \<or> DialICE peers_ok 0 s = None"
    by (simp add: peers_ok_def sentinel_server_def stun_server_def)
  have c: "Username down_server \<noteq> turnProxyMagicUsername peers_ok"
    by (simp add: peers_ok_def down_server_def)
  have d: "DialICE peers_ok 0 down_server = Some (ErrOther ''i/o timeout'')"
    by (simp add: peers_ok_def down_server_def)
  from probe_skips_sentinel_and_names_failure[OF a b c d,
        where all = "[sentinel_server, stun_server]"
        and rtc = None and l = listening and pending = "[]" and offer = "''offer''"] b
  show ?thesis
    by (simp add: peers_ok_def sentinel_server_def stun_server_def down_server_def fmt_urls_def)
qed

subsection \<open>Candidates that come before the offer\<close>

lemma negotiate_loop_buffers:
  assumes "\<forall>m\<in>set ms. Candidate m \<noteq> '''' \<or> Offer m = None"
  shows "negotiate_loop env i l None pending (map Inr ms @ frames) =
           negotiate_loop env (i + length ms) l None
             (pending @ filter (\<lambda>c. c \<noteq> '''') (map Candidate ms)) frames"
  using assms
  by (induction ms arbitrary: i pending) (auto simp: handle_frame_def offer_part_def)

lemma add_pending_all:
  assumes "\<forall>c\<in>set cs. addICECandidate env i p c = None"
  shows "add_pending env i p cs = (map (EvAddICECandidate p) cs, None)"
  using assms by (induction cs) (auto simp: after_events2_def)

text \<open>
  C1. While no offer has been handled (the frames \<open>ms\<close>, each a candidate or a frame
  without an offer), every candidate is appended to the pending candidates and nothing
  is sent, closed or refused. When the offer then comes and each call on the new peer
  succeeds, the offer is applied and answered and, after that, every pending candidate
  is added to the peer, in the order of arrival: the negotiation goes on with the peer
  and no pending candidate.
\<close>

theorem early_candidates_are_buffered_and_flushed:
  assumes h_cands: "\<forall>m\<in>set ms. Candidate m \<noteq> '''' \<or> Offer m = None"
      and h_offer: "Candidate msg = ''''" "Offer msg = Some offer" "Servers msg = Some servers"
      and h_probes: "probe_servers env (length ms) servers = (probes, None)"
      and h_url: "TURNProxyURL msg \<noteq> '''' \<longrightarrow> urlParse env (length ms) (TURNProxyURL msg) = None"
      and h_peer: "newPeerConnection env (length ms) servers
                   (if TURNProxyURL msg \<noteq> ''''
                    then Some (TURNProxyURL msg, turnProxyAuthToken l) else None) = Inr p"
      and h_remote: "setRemoteDescription env (length ms) p offer = None"
      and h_answer: "createAnswer env (length ms) p = Inr answer"
      and h_local: "setLocalDescription env (length ms) p answer = None"
      and h_marshal: "marshalMessage env (length ms)
                      (zero_BrokerMessage\<lparr>Answer := localDescription env (length ms) p\<rparr>) = None"
      and h_write: "connWrite env (length ms)
                      (zero_BrokerMessage\<lparr>Answer := localDescription env (length ms) p\<rparr>) = None"
      and h_adds: "\<forall>m\<in>set ms. Candidate m \<noteq> '''' \<longrightarrow>
                     addICECandidate env (length ms) p (Candidate m) = None"
  shows "negotiate env l (map Inr ms) =
           (l, [], Going None (filter (\<lambda>c. c \<noteq> '''') (map Candidate ms))) \<and>
         negotiate env l (map Inr ms @ [Inr msg]) =
           (l\<lparr>connClosers := connClosers l @ [p]\<rparr>,
            probes @
            [EvNewPeerConnection p, EvOnConnectionStateChange p, EvProxyICECandidates p,
             EvOnDataChannel p, EvSetRemoteDescription p offer, EvCreateAnswer p,
             EvSetLocalDescription p answer, EvFlushCandidates p,
             EvConnWrite (zero_BrokerMessage\<lparr>Answer := localDescription env (length ms) p\<rparr>)] @
            map (EvAddICECandidate p) (filter (\<lambda>c. c \<noteq> '''') (map Candidate ms)),
            Going (Some p) [])"
proof
  from negotiate_loop_buffers[OF h_cands, of env 0 l "[]" "[]"]
  show "negotiate env l (map Inr ms) =
          (l, [], Going None (filter (\<lambda>c. c \<noteq> '''') (map Candidate ms)))"
    by (simp add: negotiate_def)
next
  let ?early = "filter (\<lambda>c. c \<noteq> '''') (map Candidate ms)"
  have ap: "add_pending env (length ms) p ?early = (map (EvAddICECandidate p) ?early, None)"
    using h_adds by (intro add_pending_all) auto
  have ao: "answer_offer env (length ms) (l\<lparr>connClosers := connClosers l @ [p]\<rparr>) p
              ?early offer =
            (l\<lparr>connClosers := connClosers l @ [p]\<rparr>,
             [EvSetRemoteDescription p offer, EvCreateAnswer p,
              EvSetLocalDescription p answer, EvFlushCandidates p,
              EvConnWrite (zero_BrokerMessage\<lparr>Answer := localDescription env (length ms) p\<rparr>)] @
             map (EvAddICECandidate p) ?early,
             Going (Some p) [])"
    using h_remote h_answer h_local h_marshal h_write ap
    by (simp add: answer_offer_def Let_def)
  have ho: "handle_offer env (length ms) l None ?early msg offer =
            (l\<lparr>connClosers := connClosers l @ [p]\<rparr>,
             probes @
             [EvNewPeerConnection p, EvOnConnectionStateChange p, EvProxyICECandidates p,
              EvOnDataChannel p, EvSetRemoteDescription p offer, EvCreateAnswer p,
              EvSetLocalDescription p answer, EvFlushCandidates p,
              EvConnWrite (zero_BrokerMessage\<lparr>Answer := localDescription env (length ms) p\<rparr>)] @
             map (EvAddICECandidate p) ?early,
             Going (Some p) [])"
    using h_offer(3) h_probes h_url h_peer ao
    by (cases "TURNProxyURL msg = ''''") (simp_all add: handle_offer_def Let_def)
  have hf: "handle_frame env (length ms) l None ?early msg =
            handle_offer env (length ms) l None ?early msg offer"
    using h_offer(1,2) by (simp add: handle_frame_def offer_part_def)
  from negotiate_loop_buffers[OF h_cands, of env 0 l "[]" "[Inr msg]"] hf ho
  show "negotiate env l (map Inr ms @ [Inr msg]) =
           (l\<lparr>connClosers := connClosers l @ [p]\<rparr>,
            probes @
            [EvNewPeerConnection p, EvOnConnectionStateChange p, EvProxyICECandidates p,
             EvOnDataChannel p, EvSetRemoteDescription p offer, EvCreateAnswer p,
             EvSetLocalDescription p answer, EvFlushCandidates p,
             EvConnWrite (zero_BrokerMessage\<lparr>Answer := localDescription env (length ms) p\<rparr>)] @
            map (EvAddICECandidate p) ?early,
            Going (Some p) [])"
    by (simp add: negotiate_def)
qed

theorem early_candidates_are_buffered_and_flushed_witness:
  "negotiate peers_ok listening
     [Inr (candidate_frame ''candidate:1''), Inr (candidate_frame ''candidate:2'')] =
     (listening, [], Going None [''candidate:1'', ''candidate:2'']) \<and>
   negotiate peers_ok listening
     [Inr (candidate_frame ''candidate:1''), Inr (candidate_frame ''candidate:2''),
      Inr offer_frame] =
     (listening\<lparr>connClosers := [9]\<rparr>,
      [EvDialICE stun_server, EvNewPeerConnection 9, EvOnConnectionStateChange 9,
       EvProxyICECandidates 9, EvOnDataChannel 9, EvSetRemoteDescription 9 ''offer'',
       EvCreateAnswer 9, EvSetLocalDescription 9 ''answer'', EvFlushCandidates 9,
       EvConnWrite (zero_BrokerMessage\<lparr>Answer := Some ''answer''\<rparr>),
       EvAddICECandidate 9 ''candidate:1'', EvAddICECandidate 9 ''candidate:2''],
      Going (Some 9) [])"
proof -
  let ?ms = "[candidate_frame ''candidate:1'', candidate_frame ''candidate:2'']"
  have h_cands: "\<forall>m\<in>set ?ms. Candidate m \<noteq> '''' \<or> Offer m = None"
    by (simp add: candidate_frame_def zero_BrokerMessage_def)
  have h_offer: "Candidate offer_frame = ''''" "Offer offer_frame = Some ''offer''"
    "Servers offer_frame = Some [stun_server]"
    by (simp_all add: offer_frame_def zero_BrokerMessage_def)
  have h_probes:
    "probe_servers peers_ok (length ?ms) [stun_server] = ([EvDialICE stun_server], None)"
    by (simp add: peers_ok_def stun_server_def)
  have h_url: "TURNProxyURL offer_frame \<noteq> '''' \<longrightarrow>
               urlParse peers_ok (length ?ms) (TURNProxyURL offer_frame) = None"
    by (simp add: offer_frame_def zero_BrokerMessage_def)
  have h_peer: "newPeerConnection peers_ok (length ?ms) [stun_server]
                   (if TURNProxyURL offer_frame \<noteq> ''''
                    then Some (TURNProxyURL offer_frame, turnProxyAuthToken listening)
                    else None) = Inr 9"
    by (simp add: peers_ok_def)
  have h_remote: "setRemoteDescription peers_ok (length ?ms) 9 ''offer'' = None"
    by (simp add: peers_ok_def)
  have h_answer: "createAnswer peers_ok (length ?ms) 9 = Inr ''answer''"
    by (simp add: peers_ok_def)
  have h_local: "setLocalDescription peers_ok (length ?ms) 9 ''answer'' = None"
    by (simp add: peers_ok_def)
  have h_marshal: "marshalMessage peers_ok (length ?ms)
                   (zero_BrokerMessage\<lparr>Answer := localDescription peers_ok (length ?ms) 9\<rparr>) =
                   None"
    by (simp add: peers_ok_def)
  have h_write: "connWrite peers_ok (length ?ms)
                   (zero_BrokerMessage\<lparr>Answer := localDescription peers_ok (length ?ms) 9\<rparr>) =
                   None"
    by (simp add: peers_ok_def)
  have h_adds: "\<forall>m\<in>set ?ms. Candidate m \<noteq> '''' \<longrightarrow>
                  addICECandidate peers_ok (length ?ms) 9 (Candidate m) = None"
    by (simp add: peers_ok_def)
  from early_candidates_are_buffered_and_flushed[OF h_cands h_offer h_probes h_url h_peer
      h_remote h_answer h_local h_marshal h_write h_adds]
  show ?thesis
    by (simp add: peers_ok_def candidate_frame_def listening_def zero_BrokerMessage_def)
qed

subsection \<open>The list of closers\<close>

lemma answer_offer_listener: "fst (answer_offer env i l p pending offer) = l"
  by (simp add: answer_offer_def Let_def split: option.split sum.split prod.split)

lemma handle_frame_closers:
  "\<exists>ps. connClosers (fst (handle_frame env i l rtc pending msg)) = connClosers l @ ps"
proof -
  have ho: "\<And>offer rtc.
             \<exists>ps. connClosers (fst (handle_offer env i l rtc pending msg offer)) =
                  connClosers l @ ps"
    by (simp add: handle_offer_def Let_def answer_offer_listener
             split: option.split sum.split prod.split)
  have op: "\<And>rtc. \<exists>ps. connClosers (fst (offer_part env i l rtc pending msg)) =
                      connClosers l @ ps"
    using ho by (cases "Offer msg") (auto simp: offer_part_def)
  show ?thesis
    using op by (simp add: handle_frame_def split: option.split)
qed

text \<open>A negotiation only appends to \<open>connClosers\<close>.\<close>

lemma negotiate_loop_closers:
  "\<exists>ps. connClosers (fst (negotiate_loop env i l rtc pending frames)) = connClosers l @ ps"
proof (induction frames arbitrary: i l rtc pending)
  case Nil
  then show ?case by simp
next
  case (Cons frame frames)
  show ?case
  proof (cases frame)
    case (Inl err)
    then show ?thesis by (simp add: fail_def)
  next
    case (Inr msg)
    obtain l1 tr1 res1 where hf: "handle_frame env i l rtc pending msg = (l1, tr1, res1)"
      by (cases "handle_frame env i l rtc pending msg") auto
    from handle_frame_closers[of env i l rtc pending msg] hf
    obtain ps where ps: "connClosers l1 = connClosers l @ ps" by auto
    show ?thesis
    proof (cases res1)
      case (Returned err r)
      with Inr hf ps show ?thesis by simp
    next
      case (Going rtc1 pending1)
      from Cons.IH[of "Suc i" l1 rtc1 pending1] obtain qs where
        "connClosers (fst (negotiate_loop env (Suc i) l1 rtc1 pending1 frames)) =
           connClosers l1 @ qs"
        by auto
      with Inr hf ps Going show ?thesis
        by (cases "negotiate_loop env (Suc i) l1 rtc1 pending1 frames")
           (simp add: after_events_def)
    qed
  qed
qed

text \<open>
  C4, as the claim states it, fails: a negotiation registers peer 7, the state of the
  peer becomes failed, and the peer is still in \<open>connClosers\<close>; a later \<open>Close\<close>
  closes it again.
\<close>

theorem failed_peer_stays_registered_counterexample:
  "7 \<in> set (connClosers (fst (onConnectionStateChange
             (fst (negotiate peers_ok listening [Inr offer_frame]))
             PeerConnectionStateFailed))) \<and>
   EvPeerClose 7 \<in> set (fst (Close refusing_broker (fst (onConnectionStateChange
             (fst (negotiate peers_ok listening [Inr offer_frame]))
             PeerConnectionStateFailed))))"
proof -
  have n: "negotiate peers_ok listening [Inr offer_frame] =
     (listening\<lparr>connClosers := [7]\<rparr>,
      [EvDialICE stun_server, EvNewPeerConnection 7, EvOnConnectionStateChange 7,
       EvProxyICECandidates 7, EvOnDataChannel 7, EvSetRemoteDescription 7 ''offer'',
       EvCreateAnswer 7, EvSetLocalDescription 7 ''answer'', EvFlushCandidates 7,
       EvConnWrite (zero_BrokerMessage\<lparr>Answer := Some ''answer''\<rparr>)],
      Going (Some 7) [])"
    by (simp add: negotiate_def handle_frame_def offer_part_def handle_offer_def
          answer_offer_def peers_ok_def offer_frame_def zero_BrokerMessage_def stun_server_def
          listening_def)
  show ?thesis
    unfolding n by (simp add: onConnectionStateChange_def Close_def listening_def)
qed

text \<open>
  C4, amended. When the state of a peer changes to any state but connecting (failed and
  closed among them), the signaling stream of its negotiation is closed and the list of
  closers is left as it is: every peer of the list stays in it, also through any later
  negotiation, and a later \<open>Close\<close> closes every peer of the list, dead or alive.
\<close>

theorem state_change_keeps_closers:
  assumes "onConnectionStateChange l pcs = (l', tr)"
  shows "connClosers l' = connClosers l \<and>
         tr = (if pcs = PeerConnectionStateConnecting then [] else [EvConnClose]) \<and>
         (\<forall>p\<in>set (connClosers l).
            p \<in> set (connClosers (fst (negotiate env l' frames))) \<and>
            EvPeerClose p \<in> set (fst (Close benv l')) \<and>
            EvPeerClose p \<in> set (fst (Close benv (fst (negotiate env l' frames)))))"
proof -
  from negotiate_loop_closers[of env 0 l' None "[]" frames]
  obtain ps where "connClosers (fst (negotiate env l' frames)) = connClosers l' @ ps"
    by (auto simp: negotiate_def)
  with assms show ?thesis
    by (auto simp: onConnectionStateChange_def Close_def split: if_splits option.splits)
qed

theorem state_change_keeps_closers_witness:
  "onConnectionStateChange (listening\<lparr>connClosers := [7]\<rparr>) PeerConnectionStateFailed =
     (listening\<lparr>connClosers := [7]\<rparr>, [EvConnClose]) \<and>
   connClosers (listening\<lparr>connClosers := [7]\<rparr>) = [7] \<and>
   7 \<in> set (connClosers (fst (negotiate peers_ok (listening\<lparr>connClosers := [7]\<rparr>)
                                 [Inr offer_frame]))) \<and>
   EvPeerClose 7 \<in> set (fst (Close refusing_broker (listening\<lparr>connClosers := [7]\<rparr>)))"
proof -
  have c: "onConnectionStateChange (listening\<lparr>connClosers := [7]\<rparr>) PeerConnectionStateFailed =
     (listening\<lparr>connClosers := [7]\<rparr>, [EvConnClose])"
    by (simp add: onConnectionStateChange_def)
  from state_change_keeps_closers[OF c, of peers_ok "[Inr offer_frame]" refusing_broker] c
  show ?thesis by simp
qed

subsection \<open>Application data channels\<close>

text \<open>
  C5. On an application data channel whose address parses and whose \<open>net.Dial\<close> fails,
  the first and only frame sent is a \<open>DialChannelResponse\<close> with the code
  \<open>dial_error\<close> and the text of the error, with \<open>Net\<close> and \<open>Op\<close> taken from the
  error when it is a \<open>*net.OpError\<close>; then the channel is closed and nothing is bridged.
  The channel is taken to work (it detaches, the response is marshalled and written), and
  the error to have a text, as every error of \<open>net.Dial\<close> has.
\<close>

theorem dial_failure_is_reported:
  assumes "protocol \<noteq> controlChannel env"
      and "detach env dc = None"
      and "getAddress env msg protocol = Inr (network, addr)"
      and "netDial env network addr = Some err"
      and "error_text err \<noteq> ''''"
      and "marshalResponse env (dial_response (Some err)) = None"
      and "rwWrite env dc (dial_response (Some err)) = None"
  shows "handle env msg dc protocol reads =
           ([EvDetach dc, EvNetDial network addr, EvChanWrite dc (dial_response (Some err)),
             EvChanClose dc], ChanReturned) \<and>
         Code (dial_response (Some err)) = ''dial_error'' \<and>
         Err (dial_response (Some err)) = error_text err \<and>
         (\<forall>opn nt s. err = ErrOpError opn nt s \<longrightarrow>
            Net (dial_response (Some err)) = nt \<and> Op (dial_response (Some err)) = opn) \<and>
         EvBridge dc \<notin> set (fst (handle env msg dc protocol reads))"
proof -
  have e: "Err (dial_response (Some err)) = error_text err"
    by (cases err) (simp_all add: dial_response_def Let_def zero_DialChannelResponse_def)
  have c: "Code (dial_response (Some err)) = ''dial_error''"
    by (cases err)
       (simp_all add: dial_response_def Let_def zero_DialChannelResponse_def CodeDialErr_def)
  have n: "\<forall>opn nt s. err = ErrOpError opn nt s \<longrightarrow>
            Net (dial_response (Some err)) = nt \<and> Op (dial_response (Some err)) = opn"
    by (simp add: dial_response_def Let_def zero_DialChannelResponse_def)
  have h: "handle env msg dc protocol reads =
           ([EvDetach dc, EvNetDial network addr, EvChanWrite dc (dial_response (Some err)),
             EvChanClose dc], ChanReturned)"
    using assms e by (simp add: handle_def sendInitMessage_def Let_def)
  from h e c n show ?thesis by simp
qed

theorem dial_failure_is_reported_witness:
  "handle chan_ok zero_BrokerMessage 4 ''tcp:127.0.0.1:9'' [] =
     ([EvDetach 4, EvNetDial ''tcp'' ''127.0.0.1:9'',
       EvChanWrite 4 \<lparr>Code = ''dial_error'',
                       Err = ''dial tcp 127.0.0.1:9: connect: connection refused'',
                       Net = ''tcp'', Op = ''dial''\<rparr>,
       EvChanClose 4], ChanReturned)"
proof -
  have a: "''tcp:127.0.0.1:9'' \<noteq> controlChannel chan_ok" by (simp add: chan_ok_def)
  have b: "detach chan_ok 4 = None" by (simp add: chan_ok_def)
  have c: "getAddress chan_ok zero_BrokerMessage ''tcp:127.0.0.1:9'' =
             Inr (''tcp'', ''127.0.0.1:9'')"
    by (simp add: chan_ok_def)
  have d: "netDial chan_ok ''tcp'' ''127.0.0.1:9'' = Some refused" by (simp add: chan_ok_def)
  have e: "error_text refused \<noteq> ''''" by (simp add: refused_def)
  have f: "marshalResponse chan_ok (dial_response (Some refused)) = None"
    by (simp add: chan_ok_def)
  have g: "rwWrite chan_ok 4 (dial_response (Some refused)) = None" by (simp add: chan_ok_def)
  from dial_failure_is_reported[OF a b c d e f g, of "[]"]
  show ?thesis
    by (simp add: dial_response_def refused_def zero_DialChannelResponse_def CodeDialErr_def)
qed

text \<open>
  C6. On an application data channel whose label does not parse or whose address is
  denied by the policy (\<open>getAddress\<close> returns an error), the listener writes on that
  channel a response with the code \<open>permission_error\<close> when the error is a
  \<open>notPermittedByPolicyErr\<close> and \<open>bad_address_error\<close> otherwise, with the text of the
  error; it dials nothing, it closes no peer, and every one of its events is on that
  channel.
\<close>

theorem address_error_stays_on_channel:
  assumes "protocol \<noteq> controlChannel env"
      and "detach env dc = None"
      and "getAddress env msg protocol = Inl err"
      and "marshalResponse env (address_response err) = None"
  shows "(\<exists>rest. fst (handle env msg dc protocol reads) =
            EvDetach dc # EvChanWrite dc (address_response err) # rest) \<and>
         Code (address_response err) =
           (if as_notPermittedByPolicyErr err then ''permission_error''
            else ''bad_address_error'') \<and>
         Err (address_response err) = error_text err \<and>
         (\<forall>e\<in>set (fst (handle env msg dc protocol reads)). on_channel dc e) \<and>
         (\<forall>network addr. EvNetDial network addr \<notin> set (fst (handle env msg dc protocol reads))) \<and>
         (\<forall>p. EvPeerClose p \<notin> set (fst (handle env msg dc protocol reads))) \<and>
         snd (handle env msg dc protocol reads) = ChanReturned"
  using assms
  by (auto simp: handle_def sendInitMessage_def address_response_def Let_def
        zero_DialChannelResponse_def CodePermissionErr_def CodeBadAddressErr_def
        split: option.splits)

theorem address_error_stays_on_channel_witness:
  "handle chan_ok zero_BrokerMessage 4 ''tcp:10.0.0.1:22'' [] =
     ([EvDetach 4,
       EvChanWrite 4 \<lparr>Code = ''permission_error'',
                       Err = ''tcp:10.0.0.1:22 is not permitted by policy'',
                       Net = '''', Op = ''''\<rparr>,
       EvChanClose 4], ChanReturned) \<and>
   Code (address_response (ErrOther ''missing port'')) = ''bad_address_error''"
proof -
  have a: "''tcp:10.0.0.1:22'' \<noteq> controlChannel chan_ok" by (simp add: chan_ok_def)
  have b: "detach chan_ok 4 = None" by (simp add: chan_ok_def)
  have c: "getAddress chan_ok zero_BrokerMessage ''tcp:10.0.0.1:22'' = Inl not_permitted"
    by (simp add: chan_ok_def)
  have d: "marshalResponse chan_ok (address_response not_permitted) = None"
    by (simp add: chan_ok_def)
  have a': "''tcp:localhost'' \<noteq> controlChannel chan_ok" by (simp add: chan_ok_def)
  have c': "getAddress chan_ok zero_BrokerMessage ''tcp:localhost'' =
              Inl (ErrOther ''missing port'')"
    by (simp add: chan_ok_def)
  have d': "marshalResponse chan_ok (address_response (ErrOther ''missing port'')) = None"
    by (simp add: chan_ok_def)
  have h: "handle chan_ok zero_BrokerMessage 4 ''tcp:10.0.0.1:22'' [] =
     ([EvDetach 4, EvChanWrite 4 (address_response not_permitted), EvChanClose 4],
      ChanReturned)"
    by (simp add: handle_def sendInitMessage_def chan_ok_def address_response_def
          not_permitted_def zero_DialChannelResponse_def)
  from address_error_stays_on_channel[OF a b c d, of "[]"]
       address_error_stays_on_channel[OF a' b c' d', of "[]"] h
  show ?thesis
    by (simp add: not_permitted_def address_response_def zero_DialChannelResponse_def
          CodePermissionErr_def)
qed

subsection \<open>The control channel\<close>




end
